theory Spec2Isabelle
  imports Complex_Main
begin

section \<open>Errors and two-dimensional tensors\<close>

text \<open>
  Exceptions of the Python source are values. \<open>ValueError\<close> carries its message,
  since the decoder's message is part of its contract; the other constructors stand
  for the exception classes raised by the Python runtime and by torch.
\<close>

datatype error =
    ValueError string
  | TypeError
  | AttributeError
  | IndexError
  | RuntimeError

text \<open>
  Token ids, boolean masks and the uniform draws of \<open>torch.rand_like\<close> are tensors of
  rank two, \<open>(B, L)\<close>. A tensor is its two dimensions and its cells; only the cells
  \<open>cell t i j\<close> with \<open>i < nrows t\<close> and \<open>j < ncols t\<close> belong to it. Token ids are
  Python/torch integers (\<open>int\<close>); a float32 value of torch is the real number it
  denotes (\<open>real\<close>).
\<close>

record 'a tensor2 =
  nrows :: nat
  ncols :: nat
  cell :: "nat \<Rightarrow> nat \<Rightarrow> 'a"

definition tmap :: "('a \<Rightarrow> 'b) \<Rightarrow> 'a tensor2 \<Rightarrow> 'b tensor2" where
  "tmap f t = \<lparr>nrows = nrows t, ncols = ncols t, cell = (\<lambda>i j. f (cell t i j))\<rparr>"

text \<open>Elementwise \<open>a & b\<close> of two masks of the same shape.\<close>

definition tand :: "bool tensor2 \<Rightarrow> bool tensor2 \<Rightarrow> bool tensor2" where
  "tand a b = \<lparr>nrows = nrows a, ncols = ncols a, cell = (\<lambda>i j. cell a i j \<and> cell b i j)\<rparr>"

text \<open>
  The in-place \<open>a |= b\<close>: torch broadcasts the right operand to the shape of the left
  one (a dimension of size one is repeated) and raises when that is impossible.
\<close>

definition broadcast_to :: "nat \<Rightarrow> nat \<Rightarrow> 'a tensor2 \<Rightarrow> 'a tensor2 option" where
  "broadcast_to r c t =
     (if (nrows t = r \<or> nrows t = 1) \<and> (ncols t = c \<or> ncols t = 1)
      then Some \<lparr>nrows = r, ncols = c,
                 cell = (\<lambda>i j. cell t (if nrows t = r then i else 0) (if ncols t = c then j else 0))\<rparr>
      else None)"

definition ior :: "bool tensor2 \<Rightarrow> bool tensor2 \<Rightarrow> error + bool tensor2" where
  "ior a b =
     (case broadcast_to (nrows a) (ncols a) b of
        None \<Rightarrow> Inl RuntimeError
      | Some b' \<Rightarrow> Inr \<lparr>nrows = nrows a, ncols = ncols a,
                         cell = (\<lambda>i j. cell a i j \<or> cell b' i j)\<rparr>)"

text \<open>\<open>x[mask] = v\<close> with a scalar \<open>v\<close>.\<close>

definition masked_fill :: "'a tensor2 \<Rightarrow> bool tensor2 \<Rightarrow> 'a \<Rightarrow> 'a tensor2" where
  "masked_fill x m v = x\<lparr>cell := (\<lambda>i j. if cell m i j then v else cell x i j)\<rparr>"

text \<open>
  \<open>x[mask] = values\<close> with a one-dimensional tensor of values: the \<open>k\<close>-th value goes to
  the \<open>k\<close>-th true cell of the mask in row-major order. \<open>count_true\<close> is \<open>mask.sum()\<close>.
\<close>

definition row_count :: "bool tensor2 \<Rightarrow> nat \<Rightarrow> nat \<Rightarrow> nat" where
  "row_count m i n = length (filter (\<lambda>j. cell m i j) [0..<n])"

definition rank_true :: "bool tensor2 \<Rightarrow> nat \<Rightarrow> nat \<Rightarrow> nat" where
  "rank_true m i j = sum_list (map (\<lambda>i'. row_count m i' (ncols m)) [0..<i]) + row_count m i j"

definition count_true :: "bool tensor2 \<Rightarrow> nat" where
  "count_true m = sum_list (map (\<lambda>i. row_count m i (ncols m)) [0..<nrows m])"

definition masked_scatter :: "'a tensor2 \<Rightarrow> bool tensor2 \<Rightarrow> (nat \<Rightarrow> 'a) \<Rightarrow> 'a tensor2" where
  "masked_scatter x m vs = x\<lparr>cell := (\<lambda>i j. if cell m i j then vs (rank_true m i j) else cell x i j)\<rparr>"

section \<open>The random number generator of torch\<close>

text \<open>
  \<open>torch.rand_like\<close> and \<open>torch.randint\<close> read and advance the global generator of
  torch. The generator is explicit state of type \<open>'g\<close>, and the two functions are
  parameters: \<open>rand_like r c g\<close> yields the cells of an \<open>(r, c)\<close> tensor of draws from
  \<open>[0, 1)\<close>, \<open>randint low high n g\<close> yields \<open>n\<close> integer draws (the \<open>k\<close>-th one at \<open>k\<close>).
  The draws of \<open>rand_like\<close> are float32 values: the CPU generator of torch draws
  \<open>k / 2 ^ 24\<close> with \<open>k < 2 ^ 24\<close>, every \<open>k\<close> equally likely.
\<close>

record 'g torch_random =
  rand_like :: "nat \<Rightarrow> nat \<Rightarrow> 'g \<Rightarrow> (nat \<Rightarrow> nat \<Rightarrow> real) \<times> 'g"
  randint :: "int \<Rightarrow> int \<Rightarrow> nat \<Rightarrow> 'g \<Rightarrow> (nat \<Rightarrow> int) \<times> 'g"


section \<open>TextMasking\<close>

record TextMasking =
  vocab_size :: int
  unk_token_id :: int
  mask_token_id :: int
  num_special_tokens :: int
  mask_p :: real

text \<open>The ignore sentinel written by \<open>labels[~is_selected] = -100\<close>.\<close>

definition ignore_index :: int where
  "ignore_index = - 100"

text \<open>
  The masks computed by \<open>TextMasking.forward\<close>, one definition per assignment of the
  source. \<open>is_special\<close> is \<open>x == unk_token_id\<close> or-ed in place with the padding mask.
\<close>

definition is_special :: "TextMasking \<Rightarrow> int tensor2 \<Rightarrow> bool tensor2 \<Rightarrow> error + bool tensor2" where
  "is_special tm x pad_mask = ior (tmap (\<lambda>v. v = unk_token_id tm) x) pad_mask"

text \<open>
  \<open>t < p\<close> for a float32 tensor \<open>t\<close> and a Python float \<open>p\<close>: torch compares in
  float32, after converting the scalar to float32 (round to nearest, ties to even).
  For \<open>0 < p < 1\<close> the float32 values around \<open>p\<close> are the multiples of \<open>2 ^ - k\<close> with
  \<open>k = 24 + e\<close>, where \<open>e\<close> is the number of doublings that bring \<open>p\<close> into \<open>[1/2, 1)\<close>,
  at most 125: below \<open>2 ^ - 126\<close> float32 is subnormal and the spacing stays
  \<open>2 ^ - 149\<close>. Outside \<open>(0, 1)\<close> the scalar is left as it is: the conversion is
  monotone and 0 and 1 are float32 values, so a draw from \<open>[0, 1)\<close> compares with the
  converted scalar as it does with the scalar.
\<close>

definition round_half_even :: "real \<Rightarrow> int" where
  "round_half_even r =
     (if r - of_int \<lfloor>r\<rfloor> < 1 / 2 then \<lfloor>r\<rfloor>
      else if 1 / 2 < r - of_int \<lfloor>r\<rfloor> then \<lfloor>r\<rfloor> + 1
      else if even \<lfloor>r\<rfloor> then \<lfloor>r\<rfloor> else \<lfloor>r\<rfloor> + 1)"

fun binade :: "nat \<Rightarrow> real \<Rightarrow> nat" where
  "binade 0 p = 0"
| "binade (Suc fuel) p = (if 1 / 2 \<le> p then 0 else Suc (binade fuel (2 * p)))"

definition to_float32 :: "real \<Rightarrow> real" where
  "to_float32 p =
     (if p \<le> 0 \<or> 1 \<le> p then p
      else of_int (round_half_even (p * 2 ^ (24 + binade 125 p))) / 2 ^ (24 + binade 125 p))"

definition lt_mask :: "nat \<Rightarrow> nat \<Rightarrow> (nat \<Rightarrow> nat \<Rightarrow> real) \<Rightarrow> real \<Rightarrow> bool tensor2" where
  "lt_mask r c u p = \<lparr>nrows = r, ncols = c, cell = (\<lambda>i j. u i j < to_float32 p)\<rparr>"

text \<open>
  The body of \<open>forward\<close>, returning the local variables it holds at its
  \<open>return\<close>. The three \<open>rand_like\<close> draws and the \<open>randint\<close> draw are taken from the
  generator in the order of the source. A padding mask of \<open>None\<close> makes
  \<open>is_special |= pad_mask\<close> raise \<open>TypeError\<close>; \<open>torch.randint\<close> raises when
  \<open>low \<ge> high\<close>. The source overwrites \<open>x\<close> in place; \<open>masked\<close> is the overwritten
  tensor, \<open>labels\<close> the clone taken before. The Python floats \<open>0.9\<close> and \<open>1 / 9\<close> are
  doubles; they are written as the rationals they approximate, which convert to the
  same float32 values (as every scalar within \<open>2 ^ - 50\<close> of the rational does).
\<close>

record masking_locals =
  masked :: "int tensor2"
  labels :: "int tensor2"
  is_selected :: "bool tensor2"
  is_selected_1 :: "bool tensor2"
  is_selected_2 :: "bool tensor2"

definition TextMasking_body ::
  "'g torch_random \<Rightarrow> TextMasking \<Rightarrow> int tensor2 \<Rightarrow> bool tensor2 option \<Rightarrow> 'g
     \<Rightarrow> (error + masking_locals) \<times> 'g" where
  "TextMasking_body R tm x pad_mask g =
     (let labels0 = x in
      case pad_mask of
        None \<Rightarrow> (Inl TypeError, g)
      | Some pm \<Rightarrow>
         (case is_special tm x pm of
            Inl e \<Rightarrow> (Inl e, g)
          | Inr special \<Rightarrow>
             (let is_input = tmap Not special;
                  (u1, g1) = rand_like R (nrows x) (ncols x) g;
                  selected = tand (lt_mask (nrows x) (ncols x) u1 (mask_p tm)) is_input;
                  (u2, g2) = rand_like R (nrows x) (ncols x) g1;
                  selected_1 = tand selected (lt_mask (nrows x) (ncols x) u2 (9 / 10));
                  (u3, g3) = rand_like R (nrows x) (ncols x) g2;
                  selected_2 = tand selected_1 (lt_mask (nrows x) (ncols x) u3 (1 / 9));
                  x1 = masked_fill x selected_1 (mask_token_id tm)
              in if vocab_size tm \<le> num_special_tokens tm then (Inl RuntimeError, g3)
                 else
                   (let (draws, g4) = randint R (num_special_tokens tm) (vocab_size tm)
                                        (count_true selected_2) g3;
                        x2 = masked_scatter x1 selected_2 draws;
                        labels1 = masked_fill labels0 (tmap Not selected) ignore_index
                    in (Inr \<lparr>masked = x2, labels = labels1, is_selected = selected,
                             is_selected_1 = selected_1, is_selected_2 = selected_2\<rparr>, g4)))))"

text \<open>\<open>forward\<close> returns the pair \<open>(x, labels)\<close>.\<close>

definition TextMasking_forward ::
  "'g torch_random \<Rightarrow> TextMasking \<Rightarrow> int tensor2 \<Rightarrow> bool tensor2 option \<Rightarrow> 'g
     \<Rightarrow> (error + int tensor2 \<times> int tensor2) \<times> 'g" where
  "TextMasking_forward R tm x pad_mask g =
     (case TextMasking_body R tm x pad_mask g of
        (Inl e, g') \<Rightarrow> (Inl e, g')
      | (Inr r, g') \<Rightarrow> (Inr (masked r, labels r), g'))"

section \<open>The tensor substrate\<close>

text \<open>
  Activations and parameters are float tensors of torch. Their numerics (layer
  normalisation, linear maps, GELU, scaled dot-product attention, dropout) are not
  code of this repository: a tensor is a value of a type \<open>'t\<close>, the raw input of an
  input adapter a value of a type \<open>'x\<close>, the weights of one primitive module a value
  of a type \<open>'w\<close>, and the operations of torch are the fields of a record. \<open>tshape\<close> and
  \<open>xshape\<close> are \<open>.shape\<close>; \<open>repeat_batch b\<close> is einops' \<open>repeat(t, '... -> b ...', b=b)\<close>;
  \<open>slice_seq l\<close> is the indexing \<open>t[:, :l, :]\<close>; \<open>dropout p training\<close> is \<open>nn.Dropout(p)\<close>
  in the given mode, which reads the generator.
\<close>

datatype 't arg = ATensor 't | AMask "bool tensor2" | ANone

record mha_config =
  embed_dim :: nat
  kdim :: nat
  vdim :: nat
  num_heads :: nat
  attention_dropout :: real

record ('x, 't, 'w, 'g) torch =
  xshape :: "'x \<Rightarrow> nat list"
  tshape :: "'t \<Rightarrow> nat list"
  param_data :: "'w \<Rightarrow> 't"
  repeat_batch :: "nat \<Rightarrow> 't \<Rightarrow> 't"
  tadd :: "'t \<Rightarrow> 't \<Rightarrow> error + 't"
  layer_norm :: "nat \<Rightarrow> 'w \<Rightarrow> 't \<Rightarrow> error + 't"
  linear :: "nat \<Rightarrow> nat \<Rightarrow> 'w \<Rightarrow> 't \<Rightarrow> error + 't"
  gelu :: "'t \<Rightarrow> 't"
  dropout :: "real \<Rightarrow> bool \<Rightarrow> 't \<Rightarrow> 'g \<Rightarrow> 't \<times> 'g"
  multihead_attention ::
    "mha_config \<Rightarrow> 'w \<Rightarrow> bool \<Rightarrow> 't \<Rightarrow> 't \<Rightarrow> 't \<Rightarrow> 't arg \<Rightarrow> 't arg \<Rightarrow> 'g \<Rightarrow> (error + 't) \<times> 'g"
  slice_seq :: "nat \<Rightarrow> 't \<Rightarrow> error + 't"

text \<open>
  A computation that reads the generator and may raise; \<open>then_do\<close> sequences two of
  them, an exception of the first ending the whole.
\<close>

type_synonym ('a, 'g) comp = "'g \<Rightarrow> (error + 'a) \<times> 'g"

definition then_do :: "('a, 'g) comp \<Rightarrow> ('a \<Rightarrow> ('b, 'g) comp) \<Rightarrow> ('b, 'g) comp" where
  "then_do m f = (\<lambda>g. case m g of (Inl e, g') \<Rightarrow> (Inl e, g') | (Inr a, g') \<Rightarrow> f a g')"

definition pure :: "error + 'a \<Rightarrow> ('a, 'g) comp" where
  "pure r = (\<lambda>g. (r, g))"

section \<open>Modules\<close>

text \<open>
  An \<open>nn.Module\<close> is the list of the parameter objects it owns and its \<open>forward\<close>.
  A parameter object is an address (a \<open>nat\<close>); the current values of all parameters
  are a store \<open>nat \<Rightarrow> 'w\<close> that \<open>forward\<close> reads, together with the mode flag
  \<open>training\<close> of \<open>nn.Module\<close> and the positional arguments of the call. A constructor
  takes the next free address and returns the module with the next free address
  after it, so two constructor calls never share a parameter object.
\<close>

record ('t, 'w, 'g) module =
  parameters :: "nat list"
  forward :: "(nat \<Rightarrow> 'w) \<Rightarrow> bool \<Rightarrow> 't arg list \<Rightarrow> ('t, 'g) comp"

definition LayerNorm :: "('x, 't, 'w, 'g) torch \<Rightarrow> nat \<Rightarrow> nat \<Rightarrow> ('t, 'w, 'g) module \<times> nat" where
  "LayerNorm T c n =
     (\<lparr>parameters = [n],
       forward = (\<lambda>st training args.
          case args of [ATensor x] \<Rightarrow> pure (layer_norm T c (st n) x) | _ \<Rightarrow> pure (Inl TypeError))\<rparr>,
      Suc n)"

definition Linear :: "('x, 't, 'w, 'g) torch \<Rightarrow> nat \<Rightarrow> nat \<Rightarrow> nat \<Rightarrow> ('t, 'w, 'g) module \<times> nat" where
  "Linear T c_in c_out n =
     (\<lparr>parameters = [n],
       forward = (\<lambda>st training args.
          case args of [ATensor x] \<Rightarrow> pure (linear T c_in c_out (st n) x) | _ \<Rightarrow> pure (Inl TypeError))\<rparr>,
      Suc n)"

definition GELU :: "('x, 't, 'w, 'g) torch \<Rightarrow> ('t, 'w, 'g) module" where
  "GELU T =
     \<lparr>parameters = [],
      forward = (\<lambda>st training args.
         case args of [ATensor x] \<Rightarrow> pure (Inr (gelu T x)) | _ \<Rightarrow> pure (Inl TypeError))\<rparr>"

text \<open>
  Modelled from the spec: \<open>perceiver.utils.Sequential\<close> is not among the sources. It is
  the sequential-composition combinator of the spec: the modules are applied in
  order, the first one to the arguments of the call, every later one to the output
  of the one before (``each layer's output is the next layer's input''). An empty
  stack returns the tensor it is given.
\<close>

fun sequential_forward :: "('t arg list \<Rightarrow> ('t, 'g) comp) list \<Rightarrow> 't arg list \<Rightarrow> ('t, 'g) comp" where
  "sequential_forward [] args = (case args of [ATensor x] \<Rightarrow> pure (Inr x) | _ \<Rightarrow> pure (Inl TypeError))"
| "sequential_forward [f] args = f args"
| "sequential_forward (f # fs) args = then_do (f args) (\<lambda>y. sequential_forward fs [ATensor y])"

definition Sequential :: "('t, 'w, 'g) module list \<Rightarrow> ('t, 'w, 'g) module" where
  "Sequential ms =
     \<lparr>parameters = concat (map parameters ms),
      forward = (\<lambda>st training. sequential_forward (map (\<lambda>m. forward m st training) ms))\<rparr>"

text \<open>
  \<open>Residual.forward(*args)\<close>: \<open>x = self.module(*args)\<close>, then
  \<open>self.dropout(x) + args[0]\<close>.
\<close>

definition Residual :: "('x, 't, 'w, 'g) torch \<Rightarrow> ('t, 'w, 'g) module \<Rightarrow> real \<Rightarrow> ('t, 'w, 'g) module" where
  "Residual T m p =
     \<lparr>parameters = parameters m,
      forward = (\<lambda>st training args.
         then_do (forward m st training args) (\<lambda>x g.
           case dropout T p training x g of
             (d, g') \<Rightarrow>
               (case args of
                  ATensor a # _ \<Rightarrow> (tadd T d a, g')
                | _ \<Rightarrow> (Inl TypeError, g'))))\<rparr>"

definition mlp :: "('x, 't, 'w, 'g) torch \<Rightarrow> nat \<Rightarrow> nat \<Rightarrow> ('t, 'w, 'g) module \<times> nat" where
  "mlp T num_channels n =
     (let (norm, n1) = LayerNorm T num_channels n;
          (lin1, n2) = Linear T num_channels num_channels n1;
          (lin2, n3) = Linear T num_channels num_channels n2
      in (Sequential [norm, lin1, GELU T, lin2], n3))"

text \<open>
  \<open>forward(self, x_q, x_kv, pad_mask=None, attn_mask=None)\<close> and
  \<open>forward(self, x, pad_mask=None, attn_mask=None)\<close>: Python binds the positional
  arguments, fills the defaults and raises \<open>TypeError\<close> on any other number of them.
\<close>

fun bind_q_kv :: "'t arg list \<Rightarrow> error + ('t arg \<times> 't arg \<times> 't arg \<times> 't arg)" where
  "bind_q_kv [q, kv] = Inr (q, kv, ANone, ANone)"
| "bind_q_kv [q, kv, pm] = Inr (q, kv, pm, ANone)"
| "bind_q_kv [q, kv, pm, am] = Inr (q, kv, pm, am)"
| "bind_q_kv _ = Inl TypeError"

fun bind_x :: "'t arg list \<Rightarrow> error + ('t arg \<times> 't arg \<times> 't arg)" where
  "bind_x [x] = Inr (x, ANone, ANone)"
| "bind_x [x, pm] = Inr (x, pm, ANone)"
| "bind_x [x, pm, am] = Inr (x, pm, am)"
| "bind_x _ = Inl TypeError"

text \<open>
  \<open>MultiHeadAttention\<close> wraps \<open>nn.MultiheadAttention\<close> (\<open>batch_first\<close>) and calls it as
  \<open>self.attention(x_q, x_kv, x_kv, key_padding_mask=pad_mask, attn_mask=attn_mask)[0]\<close>.
\<close>

definition MultiHeadAttention ::
  "('x, 't, 'w, 'g) torch \<Rightarrow> nat \<Rightarrow> nat \<Rightarrow> nat \<Rightarrow> real \<Rightarrow> nat \<Rightarrow> ('t, 'w, 'g) module \<times> nat" where
  "MultiHeadAttention T num_q_channels num_kv_channels heads p n =
     (\<lparr>parameters = [n],
       forward = (\<lambda>st training args.
          case bind_q_kv args of
            Inl e \<Rightarrow> pure (Inl e)
          | Inr (ATensor x_q, ATensor x_kv, pad_mask, attn_mask) \<Rightarrow>
              multihead_attention T
                \<lparr>embed_dim = num_q_channels, kdim = num_kv_channels, vdim = num_kv_channels,
                 num_heads = heads, attention_dropout = p\<rparr>
                (st n) training x_q x_kv x_kv pad_mask attn_mask
          | Inr _ \<Rightarrow> pure (Inl TypeError))\<rparr>,
      Suc n)"

definition CrossAttention ::
  "('x, 't, 'w, 'g) torch \<Rightarrow> nat \<Rightarrow> nat \<Rightarrow> nat \<Rightarrow> real \<Rightarrow> nat \<Rightarrow> ('t, 'w, 'g) module \<times> nat" where
  "CrossAttention T num_q_channels num_kv_channels heads p n =
     (let (q_norm, n1) = LayerNorm T num_q_channels n;
          (kv_norm, n2) = LayerNorm T num_kv_channels n1;
          (attention, n3) = MultiHeadAttention T num_q_channels num_kv_channels heads p n2
      in (\<lparr>parameters = parameters q_norm @ parameters kv_norm @ parameters attention,
           forward = (\<lambda>st training args.
              case bind_q_kv args of
                Inl e \<Rightarrow> pure (Inl e)
              | Inr (x_q, x_kv, pad_mask, attn_mask) \<Rightarrow>
                  then_do (forward q_norm st training [x_q]) (\<lambda>x_q'.
                  then_do (forward kv_norm st training [x_kv]) (\<lambda>x_kv'.
                    forward attention st training [ATensor x_q', ATensor x_kv', pad_mask, attn_mask])))\<rparr>,
          n3))"

definition SelfAttention ::
  "('x, 't, 'w, 'g) torch \<Rightarrow> nat \<Rightarrow> nat \<Rightarrow> real \<Rightarrow> nat \<Rightarrow> ('t, 'w, 'g) module \<times> nat" where
  "SelfAttention T num_channels heads p n =
     (let (norm, n1) = LayerNorm T num_channels n;
          (attention, n2) = MultiHeadAttention T num_channels num_channels heads p n1
      in (\<lparr>parameters = parameters norm @ parameters attention,
           forward = (\<lambda>st training args.
              case bind_x args of
                Inl e \<Rightarrow> pure (Inl e)
              | Inr (x, pad_mask, attn_mask) \<Rightarrow>
                  then_do (forward norm st training [x]) (\<lambda>x'.
                    forward attention st training [ATensor x', ATensor x', pad_mask, attn_mask]))\<rparr>,
          n2))"

definition cross_attention_layer ::
  "('x, 't, 'w, 'g) torch \<Rightarrow> nat \<Rightarrow> nat \<Rightarrow> nat \<Rightarrow> real \<Rightarrow> nat \<Rightarrow> ('t, 'w, 'g) module \<times> nat" where
  "cross_attention_layer T num_q_channels num_kv_channels heads p n =
     (let (att, n1) = CrossAttention T num_q_channels num_kv_channels heads p n;
          (ff, n2) = mlp T num_q_channels n1
      in (Sequential [Residual T att p, Residual T ff p], n2))"

definition self_attention_layer ::
  "('x, 't, 'w, 'g) torch \<Rightarrow> nat \<Rightarrow> nat \<Rightarrow> real \<Rightarrow> nat \<Rightarrow> ('t, 'w, 'g) module \<times> nat" where
  "self_attention_layer T num_channels heads p n =
     (let (att, n1) = SelfAttention T num_channels heads p n;
          (ff, n2) = mlp T num_channels n1
      in (Sequential [Residual T att p, Residual T ff p], n2))"

text \<open>The list comprehension \<open>[self_attention_layer(...) for _ in range(num_layers)]\<close>.\<close>

fun self_attention_layers ::
  "('x, 't, 'w, 'g) torch \<Rightarrow> nat \<Rightarrow> nat \<Rightarrow> nat \<Rightarrow> real \<Rightarrow> nat \<Rightarrow> ('t, 'w, 'g) module list \<times> nat" where
  "self_attention_layers T 0 num_channels heads p n = ([], n)"
| "self_attention_layers T (Suc k) num_channels heads p n =
     (let (m, n1) = self_attention_layer T num_channels heads p n;
          (ms, n2) = self_attention_layers T k num_channels heads p n1
      in (m # ms, n2))"

definition self_attention_block ::
  "('x, 't, 'w, 'g) torch \<Rightarrow> int \<Rightarrow> nat \<Rightarrow> nat \<Rightarrow> real \<Rightarrow> nat \<Rightarrow> ('t, 'w, 'g) module \<times> nat" where
  "self_attention_block T num_layers num_channels heads p n =
     (let (ms, n1) = self_attention_layers T (nat num_layers) num_channels heads p n
      in (Sequential ms, n1))"

section \<open>PerceiverEncoder\<close>

text \<open>
  The input adapter (\<open>perceiver.adapter.InputAdapter\<close>) is an external collaborator:
  it declares \<open>num_input_channels\<close> and transforms a raw batch into the encoder input.
\<close>

record ('x, 't) InputAdapter =
  num_input_channels :: nat
  input_adapter_forward :: "'x \<Rightarrow> error + 't"

record ('x, 't, 'w, 'g) PerceiverEncoder =
  input_adapter :: "('x, 't) InputAdapter"
  num_layers :: int
  layer_1 :: "('t, 'w, 'g) module"
  layer_n :: "('t, 'w, 'g) module option"
  latent :: nat

text \<open>The local function \<open>create_perceiver_layer\<close> of \<open>__init__\<close>, with the variables it closes over.\<close>

definition create_perceiver_layer ::
  "('x, 't, 'w, 'g) torch \<Rightarrow> nat \<Rightarrow> nat \<Rightarrow> nat \<Rightarrow> nat \<Rightarrow> int \<Rightarrow> real \<Rightarrow> nat
     \<Rightarrow> ('t, 'w, 'g) module \<times> nat" where
  "create_perceiver_layer T num_latent_channels num_in num_cross_attention_heads
       num_self_attention_heads num_self_attention_layers_per_block p n =
     (let (ca, n1) = cross_attention_layer T num_latent_channels num_in num_cross_attention_heads p n;
          (sa, n2) = self_attention_block T num_self_attention_layers_per_block num_latent_channels
                       num_self_attention_heads p n1
      in (Sequential [ca, sa], n2))"

text \<open>
  \<open>__init__\<close>: \<open>layer_1\<close> always, \<open>layer_n\<close> only if \<open>num_layers > 1\<close> (the attribute does
  not exist otherwise), then the latent parameter. The values of the parameters live
  in the store; \<open>__init__\<close> creates the objects.
\<close>

definition PerceiverEncoder_init ::
  "('x, 't, 'w, 'g) torch \<Rightarrow> ('x, 't) InputAdapter \<Rightarrow> nat \<times> nat \<Rightarrow> int \<Rightarrow> nat \<Rightarrow> nat \<Rightarrow> int \<Rightarrow> real
     \<Rightarrow> nat \<Rightarrow> ('x, 't, 'w, 'g) PerceiverEncoder \<times> nat" where
  "PerceiverEncoder_init T adapter latent_shape layers num_cross_attention_heads
       num_self_attention_heads num_self_attention_layers_per_block p n =
     (let num_latent_channels = snd latent_shape;
          create = create_perceiver_layer T num_latent_channels (num_input_channels adapter)
                     num_cross_attention_heads num_self_attention_heads
                     num_self_attention_layers_per_block p;
          (l1, n1) = create n;
          (lyr_n, n2) = (if layers > 1 then (let (m, n') = create n1 in (Some m, n')) else (None, n1))
      in (\<lparr>input_adapter = adapter, num_layers = layers, layer_1 = l1, layer_n = lyr_n, latent = n2\<rparr>,
          Suc n2))"

definition mask_arg :: "bool tensor2 option \<Rightarrow> 't arg" where
  "mask_arg pad_mask = (case pad_mask of None \<Rightarrow> ANone | Some m \<Rightarrow> AMask m)"

text \<open>
  The loop \<open>for i in range(self.num_layers - 1): x_latent = self.layer_n(x_latent, x, pad_mask)\<close>,
  by the number of iterations left.
\<close>

fun encoder_loop ::
  "('t, 'w, 'g) module option \<Rightarrow> (nat \<Rightarrow> 'w) \<Rightarrow> bool \<Rightarrow> 't \<Rightarrow> 't arg \<Rightarrow> nat \<Rightarrow> 't \<Rightarrow> ('t, 'g) comp" where
  "encoder_loop lyr_n st training x pad 0 x_latent = pure (Inr x_latent)"
| "encoder_loop lyr_n st training x pad (Suc k) x_latent =
     (case lyr_n of
        None \<Rightarrow> pure (Inl AttributeError)
      | Some m \<Rightarrow>
          then_do (forward m st training [ATensor x_latent, ATensor x, pad])
                  (encoder_loop lyr_n st training x pad k))"

definition PerceiverEncoder_forward ::
  "('x, 't, 'w, 'g) torch \<Rightarrow> ('x, 't, 'w, 'g) PerceiverEncoder \<Rightarrow> (nat \<Rightarrow> 'w) \<Rightarrow> bool
     \<Rightarrow> 'x \<Rightarrow> bool tensor2 option \<Rightarrow> ('t, 'g) comp" where
  "PerceiverEncoder_forward T enc st training x pad_mask =
     (case xshape T x of
        [] \<Rightarrow> pure (Inl (ValueError ''not enough values to unpack''))
      | b # _ \<Rightarrow>
          then_do (pure (input_adapter_forward (input_adapter enc) x)) (\<lambda>x'.
            let x_latent = repeat_batch T b (param_data T (st (latent enc)))
            in then_do (forward (layer_1 enc) st training [ATensor x_latent, ATensor x', mask_arg pad_mask])
                 (encoder_loop (layer_n enc) st training x' (mask_arg pad_mask)
                    (nat (num_layers enc - 1)))))"

text \<open>
  Feeding the outcome of one step into the next: an exception ends the iteration, a
  latent tensor is passed on. The number of parameter objects of one compound layer:
  six for the cross-attention layer (two normalisations, attention, and the three of
  the feed-forward block) and five for every self-attention layer.
\<close>

definition feed :: "('t \<Rightarrow> ('t, 'g) comp) \<Rightarrow> (error + 't) \<times> 'g \<Rightarrow> (error + 't) \<times> 'g" where
  "feed f = (\<lambda>(r, g). case r of Inl e \<Rightarrow> (Inl e, g) | Inr z \<Rightarrow> f z g)"

definition perceiver_layer_size :: "int \<Rightarrow> nat" where
  "perceiver_layer_size depth = 6 + 5 * nat depth"

section \<open>PerceiverDecoder\<close>

text \<open>
  The output adapter (\<open>perceiver.adapter.OutputAdapter\<close>) is an external collaborator:
  it declares \<open>output_shape\<close> and transforms the generic decoder output.
\<close>

record ('t, 'o) OutputAdapter =
  output_shape :: "nat list"
  output_adapter_forward :: "'t \<Rightarrow> error + 'o"

record ('t, 'o, 'w, 'g) PerceiverDecoder =
  output_adapter :: "('t, 'o) OutputAdapter"
  latent_shape :: "nat \<times> nat"
  cross_attention :: "('t, 'w, 'g) module"
  output_query :: nat

text \<open>
  The field \<open>output_query\<close> is the parameter \<open>self.output\<close>.
  \<open>output_adapter.output_shape[-1]\<close> raises \<open>IndexError\<close> on an empty shape.
\<close>

definition PerceiverDecoder_init ::
  "('x, 't, 'w, 'g) torch \<Rightarrow> ('t, 'o) OutputAdapter \<Rightarrow> nat \<times> nat \<Rightarrow> nat \<Rightarrow> real \<Rightarrow> nat
     \<Rightarrow> error + ('t, 'o, 'w, 'g) PerceiverDecoder \<times> nat" where
  "PerceiverDecoder_init T adapter shape num_cross_attention_heads p n =
     (let num_latent_channels = snd shape in
      if output_shape adapter = [] then Inl IndexError
      else
        (let num_output_channels = last (output_shape adapter);
             (ca, n1) = cross_attention_layer T num_output_channels num_latent_channels
                          num_cross_attention_heads p n
         in Inr (\<lparr>output_adapter = adapter, latent_shape = shape, cross_attention = ca, output_query = n1\<rparr>,
                 Suc n1)))"

text \<open>
  The text Python prints for a natural number and for a tuple of them: \<open>()\<close>, \<open>(4,)\<close>,
  \<open>(4, 9)\<close>.
\<close>

definition digit_char :: "nat \<Rightarrow> char" where
  "digit_char d = ''0123456789'' ! d"

function str_nat :: "nat \<Rightarrow> string" where
  "str_nat n = (if n < 10 then [digit_char n] else str_nat (n div 10) @ [digit_char (n mod 10)])"
  by pat_completeness auto
termination
  by (relation "measure id") auto

declare str_nat.simps [simp del]

fun join_comma :: "string list \<Rightarrow> string" where
  "join_comma [] = []"
| "join_comma [s] = s"
| "join_comma (s # ss) = s @ '', '' @ join_comma ss"

definition str_tuple :: "nat list \<Rightarrow> string" where
  "str_tuple d =
     (case d of
        [a] \<Rightarrow> ''('' @ str_nat a @ '',)''
      | _ \<Rightarrow> ''('' @ join_comma (map str_nat d) @ '')'')"

definition shape_mismatch_message :: "nat list \<Rightarrow> nat \<times> nat \<Rightarrow> string" where
  "shape_mismatch_message d shape =
     ''Latent shape '' @ str_tuple d @ '' different from required shape ''
       @ str_tuple [fst shape, snd shape]"

definition PerceiverDecoder_forward ::
  "('x, 't, 'w, 'g) torch \<Rightarrow> ('t, 'o, 'w, 'g) PerceiverDecoder \<Rightarrow> (nat \<Rightarrow> 'w) \<Rightarrow> bool
     \<Rightarrow> 't \<Rightarrow> ('o, 'g) comp" where
  "PerceiverDecoder_forward T dec st training x =
     (case tshape T x of
        [] \<Rightarrow> pure (Inl (ValueError ''not enough values to unpack''))
      | b # d \<Rightarrow>
          if d \<noteq> [fst (latent_shape dec), snd (latent_shape dec)]
          then pure (Inl (ValueError (shape_mismatch_message d (latent_shape dec))))
          else
            (let out = repeat_batch T b (param_data T (st (output_query dec)))
             in then_do (forward (cross_attention dec) st training [ATensor out, ATensor x])
                  (\<lambda>y. pure (output_adapter_forward (output_adapter dec) y))))"

section \<open>PerceiverMLM and PerceiverIO\<close>

record ('t, 'w, 'g) PerceiverMLM =
  encoder :: "(int tensor2, 't, 'w, 'g) PerceiverEncoder"
  decoder :: "('t, 't, 'w, 'g) PerceiverDecoder"
  masking :: TextMasking

definition PerceiverMLM_forward ::
  "'g torch_random \<Rightarrow> (int tensor2, 't, 'w, 'g) torch \<Rightarrow> ('t, 'w, 'g) PerceiverMLM \<Rightarrow> (nat \<Rightarrow> 'w) \<Rightarrow> bool
     \<Rightarrow> int tensor2 \<Rightarrow> bool tensor2 option \<Rightarrow> bool \<Rightarrow> ('t \<times> int tensor2 option, 'g) comp" where
  "PerceiverMLM_forward R T mlm st training x_input pad_mask mask_flag =
     (let l = ncols x_input in
      then_do
        (if mask_flag
         then then_do (TextMasking_forward R (masking mlm) x_input pad_mask)
                (\<lambda>(x_masked, x_labels). pure (Inr (x_masked, Some x_labels)))
         else pure (Inr (x_input, None)))
        (\<lambda>(x_masked, x_labels).
           then_do (PerceiverEncoder_forward T (encoder mlm) st training x_masked pad_mask) (\<lambda>x_latent.
           then_do (PerceiverDecoder_forward T (decoder mlm) st training x_latent) (\<lambda>out.
           then_do (pure (slice_seq T l out)) (\<lambda>x_logits.
             pure (Inr (x_logits, x_labels)))))))"

text \<open>
  \<open>PerceiverIO\<close> is \<open>Sequential(encoder, decoder)\<close>: the encoder receives the arguments
  of the call (\<open>pad_mask\<close> is \<open>None\<close> when the caller gives one argument), the decoder
  the encoder's output.
\<close>

definition PerceiverIO_forward ::
  "('x, 't, 'w, 'g) torch \<Rightarrow> ('x, 't, 'w, 'g) PerceiverEncoder \<Rightarrow> ('t, 'o, 'w, 'g) PerceiverDecoder
     \<Rightarrow> (nat \<Rightarrow> 'w) \<Rightarrow> bool \<Rightarrow> 'x \<Rightarrow> bool tensor2 option \<Rightarrow> ('o, 'g) comp" where
  "PerceiverIO_forward T enc dec st training x pad_mask =
     then_do (PerceiverEncoder_forward T enc st training x pad_mask)
             (PerceiverDecoder_forward T dec st training)"

section \<open>What the model relies on from torch\<close>

text \<open>
  The shapes that the documentation of torch promises for well-shaped arguments:
  \<open>repeat\<close> adds a leading batch dimension; \<open>+\<close> of two tensors of one shape keeps it;
  \<open>nn.LayerNorm(c)\<close> and \<open>nn.Linear(c_in, c_out)\<close> act on the last dimension; GELU and
  dropout are elementwise; \<open>nn.MultiheadAttention\<close> (with \<open>batch_first\<close>, a head count
  that divides \<open>embed_dim\<close>, and an optional key padding mask of shape \<open>(B, T_k)\<close>) maps a
  query \<open>(B, T_q, E)\<close>, a key \<open>(B, T_k, kdim)\<close> and a value \<open>(B, T_k, vdim)\<close> to
  \<open>(B, T_q, E)\<close>; \<open>t[:, :l, :]\<close> truncates the second dimension of a rank-three tensor.
\<close>

definition good_pad :: "'t arg \<Rightarrow> nat \<Rightarrow> nat \<Rightarrow> bool" where
  "good_pad pad b tk =
     (case pad of ANone \<Rightarrow> True | AMask m \<Rightarrow> nrows m = b \<and> ncols m = tk | ATensor _ \<Rightarrow> False)"

definition shapes_repeat_batch :: "('x, 't, 'w, 'g) torch \<Rightarrow> bool" where
  "shapes_repeat_batch T \<longleftrightarrow> (\<forall>b t. tshape T (repeat_batch T b t) = b # tshape T t)"

definition shapes_tadd :: "('x, 't, 'w, 'g) torch \<Rightarrow> bool" where
  "shapes_tadd T \<longleftrightarrow>
     (\<forall>a c. tshape T a = tshape T c \<longrightarrow> (\<exists>y. tadd T a c = Inr y \<and> tshape T y = tshape T a))"

definition shapes_layer_norm :: "('x, 't, 'w, 'g) torch \<Rightarrow> bool" where
  "shapes_layer_norm T \<longleftrightarrow>
     (\<forall>c w x. tshape T x \<noteq> [] \<and> last (tshape T x) = c \<longrightarrow>
        (\<exists>y. layer_norm T c w x = Inr y \<and> tshape T y = tshape T x))"

definition shapes_linear :: "('x, 't, 'w, 'g) torch \<Rightarrow> bool" where
  "shapes_linear T \<longleftrightarrow>
     (\<forall>ci co w x. tshape T x \<noteq> [] \<and> last (tshape T x) = ci \<longrightarrow>
        (\<exists>y. linear T ci co w x = Inr y \<and> tshape T y = butlast (tshape T x) @ [co]))"

definition shapes_gelu :: "('x, 't, 'w, 'g) torch \<Rightarrow> bool" where
  "shapes_gelu T \<longleftrightarrow> (\<forall>x. tshape T (gelu T x) = tshape T x)"

definition shapes_dropout :: "('x, 't, 'w, 'g) torch \<Rightarrow> bool" where
  "shapes_dropout T \<longleftrightarrow>
     (\<forall>p training x g. tshape T (fst (dropout T p training x g)) = tshape T x)"

definition shapes_multihead_attention :: "('x, 't, 'w, 'g) torch \<Rightarrow> bool" where
  "shapes_multihead_attention T \<longleftrightarrow>
     (\<forall>cfg w training q k v pad g b tq tk.
        0 < num_heads cfg \<and> num_heads cfg dvd embed_dim cfg \<and>
        tshape T q = [b, tq, embed_dim cfg] \<and> tshape T k = [b, tk, kdim cfg] \<and>
        tshape T v = [b, tk, vdim cfg] \<and> good_pad pad b tk \<longrightarrow>
        (\<exists>y g'. multihead_attention T cfg w training q k v pad ANone g = (Inr y, g') \<and>
                 tshape T y = [b, tq, embed_dim cfg]))"

definition shapes_slice_seq :: "('x, 't, 'w, 'g) torch \<Rightarrow> bool" where
  "shapes_slice_seq T \<longleftrightarrow>
     (\<forall>l x b k c. tshape T x = [b, k, c] \<longrightarrow>
        (\<exists>y. slice_seq T l x = Inr y \<and> tshape T y = [b, min l k, c]))"

definition torch_shapes :: "('x, 't, 'w, 'g) torch \<Rightarrow> bool" where
  "torch_shapes T \<longleftrightarrow>
     shapes_repeat_batch T \<and> shapes_tadd T \<and> shapes_layer_norm T \<and> shapes_linear T \<and>
     shapes_gelu T \<and> shapes_dropout T \<and> shapes_multihead_attention T \<and> shapes_slice_seq T"

text \<open>
  Dropout is the identity and leaves the generator alone in evaluation mode and for
  \<open>p = 0\<close>; so does the dropout on the attention weights inside
  \<open>nn.MultiheadAttention\<close>, whose result then does not depend on the generator.
\<close>

definition dropout_off :: "('x, 't, 'w, 'g) torch \<Rightarrow> bool" where
  "dropout_off T \<longleftrightarrow>
     (\<forall>p training x g. \<not> training \<or> p = 0 \<longrightarrow> dropout T p training x g = (x, g))"

definition attention_dropout_off :: "('x, 't, 'w, 'g) torch \<Rightarrow> bool" where
  "attention_dropout_off T \<longleftrightarrow>
     (\<forall>cfg w training q k v pad am. \<not> training \<or> attention_dropout cfg = 0 \<longrightarrow>
        (\<exists>r. \<forall>g. multihead_attention T cfg w training q k v pad am g = (r, g)))"

definition torch_dropout_off :: "('x, 't, 'w, 'g) torch \<Rightarrow> bool" where
  "torch_dropout_off T \<longleftrightarrow> dropout_off T \<and> attention_dropout_off T"

section \<open>The layers in the words of the specification\<close>

text \<open>
  The residual connection: the (dropout-regularised) output of a sub-module is added
  to the tensor \<open>skip\<close>.
\<close>

definition residual_add :: "('x, 't, 'w, 'g) torch \<Rightarrow> real \<Rightarrow> bool \<Rightarrow> 't \<Rightarrow> 't \<Rightarrow> ('t, 'g) comp" where
  "residual_add T p training x skip =
     (\<lambda>g. case dropout T p training x g of (d, g') \<Rightarrow> (tadd T d skip, g'))"

text \<open>
  The feed-forward block LayerNorm, Linear, GELU, Linear, wrapped in a residual
  connection to its own input. Its three parameter objects are at \<open>n\<close>, \<open>n + 1\<close>, \<open>n + 2\<close>.
\<close>

definition feed_forward_spec ::
  "('x, 't, 'w, 'g) torch \<Rightarrow> nat \<Rightarrow> real \<Rightarrow> (nat \<Rightarrow> 'w) \<Rightarrow> nat \<Rightarrow> bool \<Rightarrow> 't \<Rightarrow> ('t, 'g) comp" where
  "feed_forward_spec T c p st n training x =
     then_do (pure (layer_norm T c (st n) x)) (\<lambda>h0.
     then_do (pure (linear T c c (st (n + 1)) h0)) (\<lambda>h1.
     then_do (pure (linear T c c (st (n + 2)) (gelu T h1))) (\<lambda>h2.
       residual_add T p training h2 x)))"

text \<open>
  The cross-attention layer of section 4.2 of the specification: the query stream and
  the key/value stream are normalised independently (parameters \<open>n\<close> and \<open>n + 1\<close>),
  attention (parameters \<open>n + 2\<close>) is applied to the normalised streams, its result is
  added to the original, unnormalised query input \<open>q\<close>, and the feed-forward block
  with its own residual follows.
\<close>

definition cross_attention_layer_spec ::
  "('x, 't, 'w, 'g) torch \<Rightarrow> nat \<Rightarrow> nat \<Rightarrow> nat \<Rightarrow> real \<Rightarrow> (nat \<Rightarrow> 'w) \<Rightarrow> nat \<Rightarrow> bool
     \<Rightarrow> 't \<Rightarrow> 't \<Rightarrow> 't arg \<Rightarrow> 't arg \<Rightarrow> ('t, 'g) comp" where
  "cross_attention_layer_spec T cq ckv heads p st n training q kv pad am =
     then_do (pure (layer_norm T cq (st n) q)) (\<lambda>qn.
     then_do (pure (layer_norm T ckv (st (n + 1)) kv)) (\<lambda>kvn.
     then_do (multihead_attention T
                \<lparr>embed_dim = cq, kdim = ckv, vdim = ckv, num_heads = heads, attention_dropout = p\<rparr>
                (st (n + 2)) training qn kvn kvn pad am) (\<lambda>a.
     then_do (residual_add T p training a q)
       (feed_forward_spec T cq p st (n + 3) training))))"

text \<open>The self-attention layer of section 4.3: one normalisation, query = key = value.\<close>

definition self_attention_layer_spec ::
  "('x, 't, 'w, 'g) torch \<Rightarrow> nat \<Rightarrow> nat \<Rightarrow> real \<Rightarrow> (nat \<Rightarrow> 'w) \<Rightarrow> nat \<Rightarrow> bool
     \<Rightarrow> 't \<Rightarrow> 't arg \<Rightarrow> 't arg \<Rightarrow> ('t, 'g) comp" where
  "self_attention_layer_spec T c heads p st n training x pad am =
     then_do (pure (layer_norm T c (st n) x)) (\<lambda>xn.
     then_do (multihead_attention T
                \<lparr>embed_dim = c, kdim = c, vdim = c, num_heads = heads, attention_dropout = p\<rparr>
                (st (n + 1)) training xn xn xn pad am) (\<lambda>a.
     then_do (residual_add T p training a x)
       (feed_forward_spec T c p st (n + 2) training)))"

text \<open>A computation that returns, from every generator state, a tensor of shape \<open>s\<close>.\<close>

definition returns_shape :: "('x, 't, 'w, 'g) torch \<Rightarrow> ('t, 'g) comp \<Rightarrow> nat list \<Rightarrow> bool" where
  "returns_shape T m s \<longleftrightarrow> (\<forall>g. \<exists>y g'. m g = (Inr y, g') \<and> tshape T y = s)"

text \<open>
  A computation whose result is the same from every generator state and which leaves
  the generator as it found it.
\<close>

definition generator_free :: "('a, 'g) comp \<Rightarrow> bool" where
  "generator_free m \<longleftrightarrow> (\<exists>r. \<forall>g. m g = (r, g))"

section \<open>A small executable substrate\<close>

text \<open>
  An instance of the substrate on which the definitions above can be evaluated: a
  tensor is its shape and one integer standing for its contents, the weights of a
  module are such a tensor, the generator is a list of uniform draws from \<open>[0, 1)\<close>
  that it replays. Shapes are checked as torch checks them. Dropout in training mode
  with \<open>p > 0\<close> takes one draw \<open>u\<close> per call and zeroes the contents when \<open>u < p\<close>; in
  evaluation mode and for \<open>p = 0\<close> it is the identity and takes no draw.
\<close>

type_synonym toy = "nat list \<times> int"

definition toy_coin :: "bool \<Rightarrow> real \<Rightarrow> real list \<Rightarrow> bool \<times> real list" where
  "toy_coin training p g =
     (if training \<and> 0 < p then (case g of [] \<Rightarrow> (True, []) | u # g' \<Rightarrow> (\<not> u < p, g'))
      else (True, g))"

definition toy_dropout :: "real \<Rightarrow> bool \<Rightarrow> toy \<Rightarrow> real list \<Rightarrow> toy \<times> real list" where
  "toy_dropout p training x g =
     (case toy_coin training p g of (keep, g') \<Rightarrow> ((fst x, if keep then snd x else 0), g'))"

definition toy_mha_ok :: "mha_config \<Rightarrow> toy \<Rightarrow> toy \<Rightarrow> toy \<Rightarrow> toy arg \<Rightarrow> bool" where
  "toy_mha_ok cfg q k v pad =
     (case (fst q, fst k, fst v) of
        ([b, tq, e], [b', tk, kd], [b'', tk', vd]) \<Rightarrow>
          b = b' \<and> b = b'' \<and> tk = tk' \<and> e = embed_dim cfg \<and> kd = kdim cfg \<and> vd = vdim cfg
          \<and> 0 < num_heads cfg \<and> num_heads cfg dvd e \<and> good_pad pad b tk
      | _ \<Rightarrow> False)"

definition toy_mha ::
  "mha_config \<Rightarrow> toy \<Rightarrow> bool \<Rightarrow> toy \<Rightarrow> toy \<Rightarrow> toy \<Rightarrow> toy arg \<Rightarrow> toy arg \<Rightarrow> (toy, real list) comp" where
  "toy_mha cfg w training q k v pad am g =
     (if toy_mha_ok cfg q k v pad
      then (case toy_coin training (attention_dropout cfg) g of
              (keep, g') \<Rightarrow> (Inr (fst q, if keep then snd q + snd k + snd w else 0), g'))
      else (Inl RuntimeError, g))"

definition toy_torch :: "('x \<Rightarrow> nat list) \<Rightarrow> ('x, toy, toy, real list) torch" where
  "toy_torch xs =
     \<lparr>xshape = xs,
      tshape = fst,
      param_data = (\<lambda>w. w),
      repeat_batch = (\<lambda>b t. (b # fst t, snd t)),
      tadd = (\<lambda>a c. if fst a = fst c then Inr (fst a, snd a + snd c) else Inl RuntimeError),
      layer_norm = (\<lambda>c w x. if fst x \<noteq> [] \<and> last (fst x) = c then Inr x else Inl RuntimeError),
      linear = (\<lambda>ci co w x. if fst x \<noteq> [] \<and> last (fst x) = ci
                             then Inr (butlast (fst x) @ [co], snd x + snd w) else Inl RuntimeError),
      gelu = (\<lambda>x. x),
      dropout = toy_dropout,
      multihead_attention = toy_mha,
      slice_seq = (\<lambda>l x. case fst x of [b, k, c] \<Rightarrow> Inr ([b, min l k, c], snd x) | _ \<Rightarrow> Inl IndexError)\<rparr>"

text \<open>
  Adapters and a parameter store for this substrate. The raw input of
  \<open>toy_input_adapter\<close> is already a tensor \<open>(B, M, c)\<close>; \<open>toy_text_adapter\<close> embeds a
  token tensor \<open>(B, L)\<close> as \<open>(B, L, c)\<close>; \<open>toy_output_adapter\<close> projects the last
  dimension to \<open>v\<close> channels. \<open>toy_store\<close> holds a tensor of shape \<open>s1\<close> at address
  \<open>a1\<close>, one of shape \<open>s2\<close> at \<open>a2\<close>, and unit weights elsewhere.
\<close>

definition toy_input_adapter :: "nat \<Rightarrow> (toy, toy) InputAdapter" where
  "toy_input_adapter c = \<lparr>num_input_channels = c, input_adapter_forward = (\<lambda>x. Inr x)\<rparr>"

definition tokens_shape :: "int tensor2 \<Rightarrow> nat list" where
  "tokens_shape x = [nrows x, ncols x]"

definition toy_text_adapter :: "nat \<Rightarrow> (int tensor2, toy) InputAdapter" where
  "toy_text_adapter c =
     \<lparr>num_input_channels = c,
      input_adapter_forward = (\<lambda>x. Inr ([nrows x, ncols x, c], cell x 0 0))\<rparr>"

definition toy_output_adapter :: "nat \<Rightarrow> nat \<Rightarrow> nat \<Rightarrow> (toy, toy) OutputAdapter" where
  "toy_output_adapter k c v =
     \<lparr>output_shape = [k, c],
      output_adapter_forward = (\<lambda>y. case fst y of [b, k', c'] \<Rightarrow> Inr ([b, k', v], snd y)
                                     | _ \<Rightarrow> Inl RuntimeError)\<rparr>"

definition toy_store :: "nat \<Rightarrow> nat list \<Rightarrow> nat \<Rightarrow> nat list \<Rightarrow> nat \<Rightarrow> toy" where
  "toy_store a1 s1 a2 s2 = (\<lambda>n. if n = a1 then (s1, 1) else if n = a2 then (s2, 1) else ([], 1))"

text \<open>
  An encoder with latent shape \<open>(2, 4)\<close>, three input channels, two heads, one
  self-attention layer per block and the given number of layers and dropout rate,
  built from address 0; and a decoder for the same latent shape with output shape
  \<open>(6, 4)\<close>, built from the given address.
\<close>

definition toy_tensors :: "(toy, toy, toy, real list) torch" where
  "toy_tensors = toy_torch fst"

definition toy_text :: "(int tensor2, toy, toy, real list) torch" where
  "toy_text = toy_torch tokens_shape"

definition encoder_example :: "int \<Rightarrow> real \<Rightarrow> (toy, toy, toy, real list) PerceiverEncoder" where
  "encoder_example L p = fst (PerceiverEncoder_init toy_tensors (toy_input_adapter 3) (2, 4) L 2 2 1 p 0)"

definition decoder_example :: "real \<Rightarrow> nat \<Rightarrow> (toy, toy, toy, real list) PerceiverDecoder" where
  "decoder_example p n =
     (case PerceiverDecoder_init toy_tensors (toy_output_adapter 6 4 9) (2, 4) 2 p n of
        Inr (dec, n') \<Rightarrow> dec)"

definition text_encoder_example :: "(int tensor2, toy, toy, real list) PerceiverEncoder" where
  "text_encoder_example = fst (PerceiverEncoder_init toy_text (toy_text_adapter 3) (2, 4) 2 2 2 1 0 0)"

definition text_decoder_example :: "(toy, toy, toy, real list) PerceiverDecoder" where
  "text_decoder_example =
     (case PerceiverDecoder_init toy_text (toy_output_adapter 6 4 9) (2, 4) 2 0 23 of
        Inr (dec, n') \<Rightarrow> dec)"

text \<open>
  A generator for \<open>TextMasking\<close> that replays a list of uniform draws, one per call of
  \<open>rand_like\<close> and the same for every cell, and draws \<open>low + d mod (high - low)\<close> in
  \<open>randint\<close>.
\<close>

definition replay_random :: "int \<Rightarrow> (real list) torch_random" where
  "replay_random d =
     \<lparr>rand_like = (\<lambda>r c g. case g of [] \<Rightarrow> ((\<lambda>i j. 0), []) | u # g' \<Rightarrow> ((\<lambda>i j. u), g')),
      randint = (\<lambda>low high n g. ((\<lambda>k. low + d mod (high - low)), g))\<rparr>"

definition const_tensor :: "nat \<Rightarrow> nat \<Rightarrow> 'a \<Rightarrow> 'a tensor2" where
  "const_tensor r c v = \<lparr>nrows = r, ncols = c, cell = (\<lambda>i j. v)\<rparr>"

text \<open>
  A masking configuration and a one-row batch for evaluation: vocabulary of ten ids,
  ids 0, 1, 2 special (\<open>unk = 1\<close>, \<open>mask = 2\<close>), two tokens with id 5, no padding.
\<close>

definition masking_example :: TextMasking where
  "masking_example =
     \<lparr>vocab_size = 10, unk_token_id = 1, mask_token_id = 2, num_special_tokens = 3,
      mask_p = 15 / 100\<rparr>"

definition tokens_example :: "int tensor2" where
  "tokens_example = const_tensor 1 2 5"

definition no_padding_example :: "bool tensor2" where
  "no_padding_example = const_tensor 1 2 False"


text \<open>
  What happens to one token that is not padding when the three uniform draws at its
  position are \<open>u1\<close>, \<open>u2\<close>, \<open>u3\<close>: \<open>forward\<close> is run on the \<open>(1, 1)\<close> batch holding it, and
  the outcome is read off the masks \<open>is_selected\<close>, \<open>is_selected_1\<close>, \<open>is_selected_2\<close>.
\<close>

datatype outcome = NotSelected | MaskToken | RandomToken | Unchanged

definition position_outcome :: "TextMasking \<Rightarrow> int \<Rightarrow> real \<Rightarrow> real \<Rightarrow> real \<Rightarrow> outcome option" where
  "position_outcome tm tok u1 u2 u3 =
     (case fst (TextMasking_body (replay_random 0) tm (const_tensor 1 1 tok)
                  (Some (const_tensor 1 1 False)) [u1, u2, u3]) of
        Inl e \<Rightarrow> None
      | Inr r \<Rightarrow>
          Some (if \<not> cell (is_selected r) 0 0 then NotSelected
                else if cell (is_selected_2 r) 0 0 then RandomToken
                else if cell (is_selected_1 r) 0 0 then MaskToken
                else Unchanged))"

text \<open>
  Probabilities over uniform draws, with the draws taken from the grid of the \<open>N\<close>
  equally spaced points \<open>0, 1/N, ..., (N - 1)/N\<close> of \<open>[0, 1)\<close>, each equally likely and
  the draws independent: the fraction of grid points (of pairs of grid points) at
  which a property holds. The draws of \<open>torch.rand_like\<close> are the grid with
  \<open>N = 2 ^ 24 = 16777216\<close>.
\<close>

definition grid_point :: "nat \<Rightarrow> nat \<Rightarrow> real" where
  "grid_point N a = real a / real N"


definition grid_fraction :: "nat \<Rightarrow> (real \<Rightarrow> real \<Rightarrow> bool) \<Rightarrow> real" where
  "grid_fraction N P =
     real (card {(a, b). a < N \<and> b < N \<and> P (grid_point N a) (grid_point N b)}) / real (N * N)"

definition mlm_example :: "(toy, toy, real list) PerceiverMLM" where
  "mlm_example = \<lparr>encoder = text_encoder_example, decoder = text_decoder_example,
                  masking = masking_example\<rparr>"

section \<open>Sequencing\<close>

lemma then_do_Inr [simp]: "m g = (Inr a, g') \<Longrightarrow> then_do m f g = f a g'"
  by (simp add: then_do_def)

lemma then_do_Inl [simp]: "m g = (Inl e, g') \<Longrightarrow> then_do m f g = (Inl e, g')"
  by (simp add: then_do_def)

lemma then_do_pure [simp]: "then_do (pure (Inr a)) f = f a"
  by (simp add: then_do_def pure_def)

lemma then_do_pure_Inl [simp]: "then_do (pure (Inl e)) f = pure (Inl e)"
  by (simp add: then_do_def pure_def)

lemma pure_apply: "pure r g = (r, g)"
  by (simp add: pure_def)

section \<open>The conversion to float32\<close>

lemma binade_numeral:
  "binade (numeral k) p = (if 1 / 2 \<le> p then 0 else Suc (binade (pred_numeral k) (2 * p)))"
  by (simp add: numeral_eq_Suc)


lemma round_half_even_below:
  assumes "of_int n \<le> r" and "r < of_int n + 1 / 2"
  shows "round_half_even r = n"
proof -
  from assms have "\<lfloor>r\<rfloor> = n" by linarith
  with assms show ?thesis by (simp add: round_half_even_def)
qed

lemma round_half_even_above:
  assumes "of_int n - 1 / 2 < r" and "r \<le> of_int n"
  shows "round_half_even r = n"
proof (cases "r = of_int n")
  case True
  then show ?thesis by (simp add: round_half_even_def)
next
  case False
  with assms have "\<lfloor>r\<rfloor> = n - 1" by linarith
  with assms False show ?thesis by (simp add: round_half_even_def)
qed

text \<open>
  The float32 values of the two constants of \<open>TextMasking.forward\<close>: \<open>0.9\<close> becomes
  \<open>15099494 / 2 ^ 24\<close>, which is below \<open>0.9\<close>, and \<open>1 / 9\<close> becomes \<open>14913081 / 2 ^ 27\<close>, which
  is above \<open>1 / 9\<close>. Every scalar within \<open>2 ^ - 50\<close> of the rational converts to the same
  value, so the doubles of Python do.
\<close>

lemma to_float32_nine_tenths_near:
  assumes "\<bar>p - 9 / 10\<bar> \<le> 1 / 2 ^ 50"
  shows "to_float32 p = 15099494 / 2 ^ 24"
proof -
  from assms have "p - 9 / 10 \<le> 1 / 2 ^ 50" and "- (1 / 2 ^ 50) \<le> p - 9 / 10"
    by (simp_all only: abs_le_iff) linarith+
  then have b: "9 / 10 - 1 / 2 ^ 50 \<le> p" "p \<le> 9 / 10 + 1 / 2 ^ 50"
    by linarith+
  then have r: "1 / 2 \<le> p" "p < 1" "0 < p"
    by simp_all
  then have e: "binade 125 p = 0"
    by (simp add: binade_numeral)
  have "round_half_even (p * 2 ^ 24) = 15099494"
    using b by (intro round_half_even_below) simp_all
  with r e show ?thesis
    by (simp add: to_float32_def)
qed

lemma to_float32_one_ninth_near:
  assumes "\<bar>p - 1 / 9\<bar> \<le> 1 / 2 ^ 50"
  shows "to_float32 p = 14913081 / 2 ^ 27"
proof -
  from assms have "p - 1 / 9 \<le> 1 / 2 ^ 50" and "- (1 / 2 ^ 50) \<le> p - 1 / 9"
    by (simp_all only: abs_le_iff) linarith+
  then have b: "1 / 9 - 1 / 2 ^ 50 \<le> p" "p \<le> 1 / 9 + 1 / 2 ^ 50"
    by linarith+
  then have r: "\<not> 1 / 2 \<le> p" "\<not> 1 / 2 \<le> 2 * p" "\<not> 1 / 2 \<le> 2 * (2 * p)" "1 / 2 \<le> 2 * (2 * (2 * p))"
     "p < 1" "0 < p"
    by simp_all
  then have e: "binade 125 p = 3"
    by (simp add: binade_numeral)
  have "round_half_even (p * 2 ^ 27) = 14913081"
    using b by (intro round_half_even_above) simp_all
  with r e show ?thesis
    by (simp add: to_float32_def)
qed

lemma to_float32_nine_tenths: "to_float32 (9 / 10) = 15099494 / 2 ^ 24"
  by (rule to_float32_nine_tenths_near) simp

lemma to_float32_one_ninth: "to_float32 (1 / 9) = 14913081 / 2 ^ 27"
  by (rule to_float32_one_ninth_near) simp

text \<open>The default \<open>mask_p = 0.15\<close> becomes \<open>10066330 / 2 ^ 26\<close>, which is above \<open>0.15\<close>.\<close>

lemma to_float32_default: "to_float32 (15 / 100) = 10066330 / 2 ^ 26"
proof -
  have e: "binade 125 (15 / 100) = 2"
    by (simp add: binade_numeral)
  have "round_half_even (15 / 100 * 2 ^ 26) = 10066330"
    by (intro round_half_even_above) simp_all
  with e show ?thesis
    by (simp add: to_float32_def)
qed

lemma to_float32_default_reduced: "to_float32 (3 / 20) = 5033165 / 33554432"
  using to_float32_default by simp


section \<open>Properties of TextMasking\<close>

lemma is_special_same_shape:
  assumes "nrows pm = nrows x" "ncols pm = ncols x"
  shows "is_special tm x pm =
           Inr \<lparr>nrows = nrows x, ncols = ncols x,
                cell = (\<lambda>i j. cell x i j = unk_token_id tm \<or> cell pm i j)\<rparr>"
  using assms by (simp add: is_special_def ior_def broadcast_to_def tmap_def)

text \<open>
  With a padding mask of the shape of the tokens and a non-empty range of ordinary
  token ids, \<open>forward\<close> returns, and its masks are nested as the source builds them.
\<close>

lemma TextMasking_body_returns:
  assumes "nrows pm = nrows x" "ncols pm = ncols x"
      and "num_special_tokens tm < vocab_size tm"
  shows "\<exists>r g'. TextMasking_body R tm x (Some pm) g = (Inr r, g')
           \<and> (\<forall>i j. cell (is_selected r) i j \<longrightarrow> \<not> (cell x i j = unk_token_id tm \<or> cell pm i j))
           \<and> (\<forall>i j. cell (is_selected_1 r) i j \<longrightarrow> cell (is_selected r) i j)
           \<and> (\<forall>i j. cell (is_selected_2 r) i j \<longrightarrow> cell (is_selected_1 r) i j)
           \<and> (\<forall>i j. cell (labels r) i j = (if cell (is_selected r) i j then cell x i j else ignore_index))
           \<and> (\<forall>i j. \<not> cell (is_selected_1 r) i j \<longrightarrow> cell (masked r) i j = cell x i j)"
  using assms
  by (simp add: TextMasking_body_def is_special_same_shape Let_def split_beta tand_def lt_mask_def
        tmap_def masked_fill_def masked_scatter_def)

lemma TextMasking_forward_of_body:
  "TextMasking_body R tm x pad_mask g = (Inr r, g')
     \<Longrightarrow> TextMasking_forward R tm x pad_mask g = (Inr (masked r, labels r), g')"
  by (simp add: TextMasking_forward_def)

text \<open>
  Claim C3. For tokens \<open>(B, L)\<close> and a padding mask \<open>(B, L)\<close>, \<open>forward\<close> returns
  \<open>(masked r, labels r)\<close>, and at every position holding a token id (ids are not
  negative): the label is the ignore sentinel \<open>-100\<close> exactly when the position was
  not selected, and at a selected position the label is the original token id,
  whatever the corrupted token there is (so also when it equals the original).
\<close>

theorem TextMasking_labels:
  assumes "nrows pm = nrows x" and "ncols pm = ncols x"
      and "num_special_tokens tm < vocab_size tm"
      and "0 \<le> cell x i j"
  shows "\<exists>r g'. TextMasking_body R tm x (Some pm) g = (Inr r, g')
           \<and> TextMasking_forward R tm x (Some pm) g = (Inr (masked r, labels r), g')
           \<and> (cell (labels r) i j = ignore_index \<longleftrightarrow> \<not> cell (is_selected r) i j)
           \<and> (cell (is_selected r) i j \<longrightarrow> cell (labels r) i j = cell x i j)"
proof -
  from TextMasking_body_returns [OF assms(1-3), of R g]
  obtain r g' where body: "TextMasking_body R tm x (Some pm) g = (Inr r, g')"
    and lab: "\<forall>i j. cell (labels r) i j = (if cell (is_selected r) i j then cell x i j else ignore_index)"
    by blast
  from assms(4) have "cell x i j \<noteq> ignore_index"
    by (simp add: ignore_index_def)
  with lab have "(cell (labels r) i j = ignore_index \<longleftrightarrow> \<not> cell (is_selected r) i j)
      \<and> (cell (is_selected r) i j \<longrightarrow> cell (labels r) i j = cell x i j)"
    by simp
  with body TextMasking_forward_of_body [OF body] show ?thesis
    by blast
qed

theorem TextMasking_labels_witness:
  "nrows no_padding_example = nrows tokens_example
   \<and> ncols no_padding_example = ncols tokens_example
   \<and> num_special_tokens masking_example < vocab_size masking_example
   \<and> 0 \<le> cell tokens_example 0 1
   \<and> (\<exists>r g'. TextMasking_body (replay_random 0) masking_example tokens_example
                 (Some no_padding_example) [1 / 10, 95 / 100, 1 / 2] = (Inr r, g')
           \<and> TextMasking_forward (replay_random 0) masking_example tokens_example
                 (Some no_padding_example) [1 / 10, 95 / 100, 1 / 2] = (Inr (masked r, labels r), g')
           \<and> (cell (labels r) 0 1 = ignore_index \<longleftrightarrow> \<not> cell (is_selected r) 0 1)
           \<and> (cell (is_selected r) 0 1 \<longrightarrow> cell (labels r) 0 1 = cell tokens_example 0 1))"
proof -
  have h1: "nrows no_padding_example = nrows tokens_example"
    by (simp add: no_padding_example_def tokens_example_def const_tensor_def)
  have h2: "ncols no_padding_example = ncols tokens_example"
    by (simp add: no_padding_example_def tokens_example_def const_tensor_def)
  have h3: "num_special_tokens masking_example < vocab_size masking_example"
    by (simp add: masking_example_def)
  have h4: "0 \<le> cell tokens_example 0 1"
    by (simp add: tokens_example_def const_tensor_def)
  show ?thesis
    using h1 h2 h3 h4
      TextMasking_labels [OF h1 h2 h3 h4, where R = "replay_random 0" and g = "[1 / 10, 95 / 100, 1 / 2]"]
    by (intro conjI) assumption+
qed

text \<open>
  The unchanged-but-selected case evaluated: both positions are selected
  (\<open>1/8\<close> is below the float32 value of \<open>0.15\<close>), neither is in the replace group
  (\<open>15/16\<close> is not below the float32 value of \<open>0.9\<close>); the tokens stay 5 and the labels
  are 5.
\<close>

lemma TextMasking_unchanged_but_selected:
  "\<exists>r. TextMasking_body (replay_random 0) masking_example tokens_example
          (Some no_padding_example) [1 / 8, 15 / 16, 1 / 2] = (Inr r, [])
      \<and> cell (is_selected r) 0 1 \<and> cell (masked r) 0 1 = 5 \<and> cell (labels r) 0 1 = 5"
  by (simp add: TextMasking_body_def is_special_def ior_def broadcast_to_def tmap_def tand_def
        lt_mask_def masked_fill_def masked_scatter_def replay_random_def masking_example_def
        tokens_example_def no_padding_example_def const_tensor_def Let_def
        to_float32_nine_tenths to_float32_one_ninth to_float32_default_reduced)

text \<open>
  Claim C4. Whatever the generator draws, a position whose original token is the
  unknown-token id, or which the padding mask marks, is not selected: it keeps its
  original token in the returned masked tensor and its label is the ignore sentinel.
\<close>

theorem TextMasking_special_never_selected:
  assumes "nrows pm = nrows x" and "ncols pm = ncols x"
      and "num_special_tokens tm < vocab_size tm"
      and "cell x i j = unk_token_id tm \<or> cell pm i j"
  shows "\<exists>r g'. TextMasking_body R tm x (Some pm) g = (Inr r, g')
           \<and> TextMasking_forward R tm x (Some pm) g = (Inr (masked r, labels r), g')
           \<and> \<not> cell (is_selected r) i j
           \<and> cell (masked r) i j = cell x i j
           \<and> cell (labels r) i j = ignore_index"
proof -
  from TextMasking_body_returns [OF assms(1-3), of R g]
  obtain r g' where body: "TextMasking_body R tm x (Some pm) g = (Inr r, g')"
    and sel: "\<forall>i j. cell (is_selected r) i j \<longrightarrow> \<not> (cell x i j = unk_token_id tm \<or> cell pm i j)"
    and sel1: "\<forall>i j. cell (is_selected_1 r) i j \<longrightarrow> cell (is_selected r) i j"
    and lab: "\<forall>i j. cell (labels r) i j = (if cell (is_selected r) i j then cell x i j else ignore_index)"
    and keep: "\<forall>i j. \<not> cell (is_selected_1 r) i j \<longrightarrow> cell (masked r) i j = cell x i j"
    by blast
  from sel assms(4) have not_sel: "\<not> cell (is_selected r) i j"
    by blast
  with sel1 have "\<not> cell (is_selected_1 r) i j"
    by blast
  with keep have "cell (masked r) i j = cell x i j"
    by blast
  moreover from lab not_sel have "cell (labels r) i j = ignore_index"
    by simp
  ultimately show ?thesis
    using body TextMasking_forward_of_body [OF body] not_sel by blast
qed

theorem TextMasking_special_never_selected_witness:
  "nrows (const_tensor 1 2 True) = nrows tokens_example
   \<and> ncols (const_tensor 1 2 True) = ncols tokens_example
   \<and> num_special_tokens masking_example < vocab_size masking_example
   \<and> (cell tokens_example 0 1 = unk_token_id masking_example \<or> cell (const_tensor 1 2 True) 0 1)
   \<and> (\<exists>r g'. TextMasking_body (replay_random 0) masking_example tokens_example
                 (Some (const_tensor 1 2 True)) [1 / 10, 1 / 2, 1 / 2] = (Inr r, g')
           \<and> TextMasking_forward (replay_random 0) masking_example tokens_example
                 (Some (const_tensor 1 2 True)) [1 / 10, 1 / 2, 1 / 2] = (Inr (masked r, labels r), g')
           \<and> \<not> cell (is_selected r) 0 1
           \<and> cell (masked r) 0 1 = cell tokens_example 0 1
           \<and> cell (labels r) 0 1 = ignore_index)"
proof -
  have h1: "nrows (const_tensor 1 2 True) = nrows tokens_example"
    by (simp add: tokens_example_def const_tensor_def)
  have h2: "ncols (const_tensor 1 2 True) = ncols tokens_example"
    by (simp add: tokens_example_def const_tensor_def)
  have h3: "num_special_tokens masking_example < vocab_size masking_example"
    by (simp add: masking_example_def)
  have h4: "cell tokens_example 0 1 = unk_token_id masking_example \<or> cell (const_tensor 1 2 True) 0 1"
    by (simp add: const_tensor_def)
  show ?thesis
    using h1 h2 h3 h4
      TextMasking_special_never_selected [OF h1 h2 h3 h4, where R = "replay_random 0"
        and g = "[1 / 10, 1 / 2, 1 / 2]"]
    by (intro conjI) assumption+
qed

section \<open>The layers: structure and shapes\<close>

lemma then_do_assoc: "then_do (then_do m f) k = then_do m (\<lambda>a. then_do (f a) k)"
  by (rule ext) (simp add: then_do_def split: prod.splits sum.splits)

lemma then_do_return [simp]: "then_do m (\<lambda>y. pure (Inr y)) = m"
  by (rule ext) (simp add: then_do_def pure_def split: prod.splits sum.splits)

lemma Residual_forward:
  "forward (Residual T m p) st training (ATensor a # rest) =
     then_do (forward m st training (ATensor a # rest)) (\<lambda>x. residual_add T p training x a)"
  by (rule ext) (simp add: Residual_def residual_add_def then_do_def split: prod.splits sum.splits)

lemma Sequential_forward_two:
  "forward (Sequential [m1, m2]) st training args =
     then_do (forward m1 st training args) (\<lambda>y. forward m2 st training [ATensor y])"
  by (simp add: Sequential_def)

lemma mlp_forward:
  "forward (fst (mlp T c n)) st training [ATensor x] =
     then_do (pure (layer_norm T c (st n) x)) (\<lambda>h0.
     then_do (pure (linear T c c (st (n + 1)) h0)) (\<lambda>h1.
       pure (linear T c c (st (n + 2)) (gelu T h1))))"
  by (simp add: mlp_def LayerNorm_def Linear_def GELU_def Sequential_def Let_def)

lemma mlp_next: "snd (mlp T c n) = n + 3"
  by (simp add: mlp_def LayerNorm_def Linear_def Let_def)

lemma residual_mlp_forward:
  "forward (Residual T (fst (mlp T c n)) p) st training [ATensor x] =
     feed_forward_spec T c p st n training x"
  by (simp add: Residual_forward feed_forward_spec_def mlp_forward then_do_assoc)

lemma CrossAttention_forward:
  "forward (fst (CrossAttention T cq ckv heads p n)) st training [ATensor q, ATensor kv, pad, am] =
     then_do (pure (layer_norm T cq (st n) q)) (\<lambda>qn.
     then_do (pure (layer_norm T ckv (st (n + 1)) kv)) (\<lambda>kvn.
       multihead_attention T
         \<lparr>embed_dim = cq, kdim = ckv, vdim = ckv, num_heads = heads, attention_dropout = p\<rparr>
         (st (n + 2)) training qn kvn kvn pad am))"
  by (simp add: CrossAttention_def LayerNorm_def MultiHeadAttention_def Let_def)

lemma CrossAttention_next: "snd (CrossAttention T cq ckv heads p n) = n + 3"
  by (simp add: CrossAttention_def LayerNorm_def MultiHeadAttention_def Let_def)

lemma cross_attention_layer_forward:
  "forward (fst (cross_attention_layer T cq ckv heads p n)) st training [ATensor q, ATensor kv, pad, am] =
     cross_attention_layer_spec T cq ckv heads p st n training q kv pad am"
  by (simp add: cross_attention_layer_def Let_def split_beta Sequential_forward_two
     cross_attention_layer_spec_def CrossAttention_next Residual_forward CrossAttention_forward
     feed_forward_spec_def [abs_def] mlp_forward then_do_assoc)


lemma returns_shape_pure: "tshape T y = s \<Longrightarrow> returns_shape T (pure (Inr y)) s"
  by (simp add: returns_shape_def pure_def)

lemma returns_shape_then_do:
  assumes "returns_shape T m s"
      and "\<And>y. tshape T y = s \<Longrightarrow> returns_shape T (f y) s'"
  shows "returns_shape T (then_do m f) s'"
  unfolding returns_shape_def
proof
  fix g
  from assms(1) obtain y g1 where m: "m g = (Inr y, g1)" and y: "tshape T y = s"
    unfolding returns_shape_def by blast
  from assms(2) [OF y] obtain z g2 where "f y g1 = (Inr z, g2)" and "tshape T z = s'"
    unfolding returns_shape_def by blast
  with m show "\<exists>y g'. then_do m f g = (Inr y, g') \<and> tshape T y = s'"
    by (simp add: then_do_def)
qed

lemma torch_shapes_layer_normD:
  "torch_shapes T \<Longrightarrow> tshape T x \<noteq> [] \<Longrightarrow> last (tshape T x) = c
     \<Longrightarrow> \<exists>y. layer_norm T c w x = Inr y \<and> tshape T y = tshape T x"
  unfolding torch_shapes_def shapes_layer_norm_def by blast

lemma torch_shapes_linearD:
  "torch_shapes T \<Longrightarrow> tshape T x \<noteq> [] \<Longrightarrow> last (tshape T x) = ci
     \<Longrightarrow> \<exists>y. linear T ci co w x = Inr y \<and> tshape T y = butlast (tshape T x) @ [co]"
  unfolding torch_shapes_def shapes_linear_def by blast

lemma torch_shapes_taddD:
  "torch_shapes T \<Longrightarrow> tshape T a = tshape T c
     \<Longrightarrow> \<exists>y. tadd T a c = Inr y \<and> tshape T y = tshape T a"
  unfolding torch_shapes_def shapes_tadd_def by blast

lemma torch_shapes_dropoutD:
  "torch_shapes T \<Longrightarrow> tshape T (fst (dropout T p training x g)) = tshape T x"
  unfolding torch_shapes_def shapes_dropout_def by blast

lemma torch_shapes_repeat_batchD:
  "torch_shapes T \<Longrightarrow> tshape T (repeat_batch T b t) = b # tshape T t"
  unfolding torch_shapes_def shapes_repeat_batch_def by blast

lemma torch_shapes_slice_seqD:
  "torch_shapes T \<Longrightarrow> tshape T x = [b, k, c]
     \<Longrightarrow> \<exists>y. slice_seq T l x = Inr y \<and> tshape T y = [b, min l k, c]"
  unfolding torch_shapes_def shapes_slice_seq_def by blast

lemma gelu_shape: "torch_shapes T \<Longrightarrow> tshape T (gelu T x) = tshape T x"
  unfolding torch_shapes_def shapes_gelu_def by blast

lemma layer_norm_shape:
  assumes "torch_shapes T" and "tshape T x = s" and "s \<noteq> []" and "last s = c"
  shows "returns_shape T (pure (layer_norm T c w x)) s"
  using torch_shapes_layer_normD [of T x c w] assms
  by (auto simp: returns_shape_def pure_def)

lemma linear_shape:
  assumes "torch_shapes T" and "tshape T x = s" and "s \<noteq> []" and "last s = c"
  shows "returns_shape T (pure (linear T c c w x)) s"
proof -
  from assms have "butlast (tshape T x) @ [c] = s"
    using append_butlast_last_id [of s] by auto
  with torch_shapes_linearD [of T x c c w] assms show ?thesis
    by (auto simp: returns_shape_def pure_def)
qed

lemma residual_add_shape:
  assumes "torch_shapes T" and "tshape T x = s" and "tshape T skip = s"
  shows "returns_shape T (residual_add T p training x skip) s"
  unfolding returns_shape_def
proof
  fix g
  obtain d g' where d: "dropout T p training x g = (d, g')"
    by (cases "dropout T p training x g")
  from torch_shapes_dropoutD [OF assms(1), of p training x g] d assms
  have ds: "tshape T d = tshape T skip"
    by simp
  from torch_shapes_taddD [OF assms(1) ds] d ds assms
  show "\<exists>y g'. residual_add T p training x skip g = (Inr y, g') \<and> tshape T y = s"
    by (auto simp: residual_add_def)
qed

lemma multihead_attention_shape:
  assumes "torch_shapes T" and "0 < heads" and "heads dvd cq"
      and "tshape T q = [b, tq, cq]" and "tshape T kv = [b, tk, ckv]" and "good_pad pad b tk"
  shows "returns_shape T
           (multihead_attention T
              \<lparr>embed_dim = cq, kdim = ckv, vdim = ckv, num_heads = heads, attention_dropout = p\<rparr>
              w training q kv kv pad ANone) [b, tq, cq]"
proof -
  let ?cfg = "\<lparr>embed_dim = cq, kdim = ckv, vdim = ckv, num_heads = heads, attention_dropout = p\<rparr>"
  from assms(1) have mha: "\<And>cfg w training q k v pad g b tq tk.
        0 < num_heads cfg \<and> num_heads cfg dvd embed_dim cfg \<and>
        tshape T q = [b, tq, embed_dim cfg] \<and> tshape T k = [b, tk, kdim cfg] \<and>
        tshape T v = [b, tk, vdim cfg] \<and> good_pad pad b tk \<Longrightarrow>
        (\<exists>y g'. multihead_attention T cfg w training q k v pad ANone g = (Inr y, g') \<and>
                 tshape T y = [b, tq, embed_dim cfg])"
    unfolding torch_shapes_def shapes_multihead_attention_def by blast
  show ?thesis
    unfolding returns_shape_def
  proof
    fix g
    from mha [of ?cfg q b tq kv tk kv pad w training g] assms(2-6)
    show "\<exists>y g'. multihead_attention T ?cfg w training q kv kv pad ANone g = (Inr y, g')
             \<and> tshape T y = [b, tq, cq]"
      by simp
  qed
qed

lemma feed_forward_shape:
  assumes "torch_shapes T" and "tshape T x = s" and "s \<noteq> []" and "last s = c"
  shows "returns_shape T (feed_forward_spec T c p st n training x) s"
  unfolding feed_forward_spec_def
  by (intro returns_shape_then_do layer_norm_shape linear_shape residual_add_shape assms)
     (simp_all add: gelu_shape assms)

lemma cross_attention_layer_shape:
  assumes "torch_shapes T" and "0 < heads" and "heads dvd cq"
      and "tshape T q = [b, tq, cq]" and "tshape T kv = [b, tk, ckv]" and "good_pad pad b tk"
  shows "returns_shape T (cross_attention_layer_spec T cq ckv heads p st n training q kv pad ANone)
           [b, tq, cq]"
  unfolding cross_attention_layer_spec_def
proof (rule returns_shape_then_do [where s = "[b, tq, cq]"])
  show "returns_shape T (pure (layer_norm T cq (st n) q)) [b, tq, cq]"
    by (rule layer_norm_shape [OF assms(1) assms(4)]) simp_all
next
  fix qn assume qn: "tshape T qn = [b, tq, cq]"
  show "returns_shape T
          (then_do (pure (layer_norm T ckv (st (n + 1)) kv)) (\<lambda>kvn.
           then_do (multihead_attention T
                \<lparr>embed_dim = cq, kdim = ckv, vdim = ckv, num_heads = heads, attention_dropout = p\<rparr>
                (st (n + 2)) training qn kvn kvn pad ANone) (\<lambda>a.
           then_do (residual_add T p training a q)
             (feed_forward_spec T cq p st (n + 3) training)))) [b, tq, cq]"
  proof (rule returns_shape_then_do [where s = "[b, tk, ckv]"])
    show "returns_shape T (pure (layer_norm T ckv (st (n + 1)) kv)) [b, tk, ckv]"
      by (rule layer_norm_shape [OF assms(1) assms(5)]) simp_all
  next
    fix kvn assume kvn: "tshape T kvn = [b, tk, ckv]"
    show "returns_shape T
           (then_do (multihead_attention T
                \<lparr>embed_dim = cq, kdim = ckv, vdim = ckv, num_heads = heads, attention_dropout = p\<rparr>
                (st (n + 2)) training qn kvn kvn pad ANone) (\<lambda>a.
           then_do (residual_add T p training a q)
             (feed_forward_spec T cq p st (n + 3) training))) [b, tq, cq]"
    proof (rule returns_shape_then_do [where s = "[b, tq, cq]"])
      show "returns_shape T (multihead_attention T
                \<lparr>embed_dim = cq, kdim = ckv, vdim = ckv, num_heads = heads, attention_dropout = p\<rparr>
                (st (n + 2)) training qn kvn kvn pad ANone) [b, tq, cq]"
        by (rule multihead_attention_shape [OF assms(1-3) qn kvn assms(6)])
    next
      fix a assume a: "tshape T a = [b, tq, cq]"
      show "returns_shape T (then_do (residual_add T p training a q)
             (feed_forward_spec T cq p st (n + 3) training)) [b, tq, cq]"
      proof (rule returns_shape_then_do [where s = "[b, tq, cq]"])
        show "returns_shape T (residual_add T p training a q) [b, tq, cq]"
          by (rule residual_add_shape [OF assms(1) a assms(4)])
      next
        fix r assume "tshape T r = [b, tq, cq]"
        then show "returns_shape T (feed_forward_spec T cq p st (n + 3) training r) [b, tq, cq]"
          by (rule feed_forward_shape [OF assms(1)]) simp_all
      qed
    qed
  qed
qed

lemma CrossAttention_forward3:
  "forward (fst (CrossAttention T cq ckv heads p n)) st training [ATensor q, ATensor kv, pad] =
     forward (fst (CrossAttention T cq ckv heads p n)) st training [ATensor q, ATensor kv, pad, ANone]"
  by (simp add: CrossAttention_def LayerNorm_def MultiHeadAttention_def Let_def)

lemma CrossAttention_forward2:
  "forward (fst (CrossAttention T cq ckv heads p n)) st training [ATensor q, ATensor kv] =
     forward (fst (CrossAttention T cq ckv heads p n)) st training [ATensor q, ATensor kv, ANone, ANone]"
  by (simp add: CrossAttention_def LayerNorm_def MultiHeadAttention_def Let_def)

lemma cross_attention_layer_forward3:
  "forward (fst (cross_attention_layer T cq ckv heads p n)) st training [ATensor q, ATensor kv, pad] =
     cross_attention_layer_spec T cq ckv heads p st n training q kv pad ANone"
  by (simp add: cross_attention_layer_def Let_def split_beta Sequential_forward_two
     cross_attention_layer_spec_def CrossAttention_next Residual_forward CrossAttention_forward3
     CrossAttention_forward feed_forward_spec_def [abs_def] mlp_forward then_do_assoc)

lemma cross_attention_layer_forward2:
  "forward (fst (cross_attention_layer T cq ckv heads p n)) st training [ATensor q, ATensor kv] =
     cross_attention_layer_spec T cq ckv heads p st n training q kv ANone ANone"
  by (simp add: cross_attention_layer_def Let_def split_beta Sequential_forward_two
     cross_attention_layer_spec_def CrossAttention_next Residual_forward CrossAttention_forward2
     CrossAttention_forward feed_forward_spec_def [abs_def] mlp_forward then_do_assoc)

lemma cross_attention_layer_next: "snd (cross_attention_layer T cq ckv heads p n) = n + 6"
  by (simp add: cross_attention_layer_def Let_def split_beta CrossAttention_next mlp_next)

lemma mlp_parameters: "parameters (fst (mlp T c n)) = [n, n + 1, n + 2]"
  by (simp add: mlp_def LayerNorm_def Linear_def GELU_def Sequential_def Let_def)

lemma cross_attention_layer_parameters:
  "parameters (fst (cross_attention_layer T cq ckv heads p n)) = [n, n + 1, n + 2, n + 3, n + 4, n + 5]"
  by (simp add: cross_attention_layer_def Let_def split_beta Sequential_def Residual_def
      mlp_parameters CrossAttention_next)
     (simp add: CrossAttention_def LayerNorm_def MultiHeadAttention_def Let_def)

lemma SelfAttention_next: "snd (SelfAttention T c heads p n) = n + 2"
  by (simp add: SelfAttention_def LayerNorm_def MultiHeadAttention_def Let_def)

lemma SelfAttention_forward:
  "forward (fst (SelfAttention T c heads p n)) st training [ATensor x] =
     then_do (pure (layer_norm T c (st n) x)) (\<lambda>xn.
       multihead_attention T
         \<lparr>embed_dim = c, kdim = c, vdim = c, num_heads = heads, attention_dropout = p\<rparr>
         (st (n + 1)) training xn xn xn ANone ANone)"
  by (simp add: SelfAttention_def LayerNorm_def MultiHeadAttention_def Let_def)

lemma self_attention_layer_forward:
  "forward (fst (self_attention_layer T c heads p n)) st training [ATensor x] =
     self_attention_layer_spec T c heads p st n training x ANone ANone"
  by (simp add: self_attention_layer_def Let_def split_beta Sequential_forward_two
     self_attention_layer_spec_def SelfAttention_next Residual_forward SelfAttention_forward
     feed_forward_spec_def [abs_def] mlp_forward then_do_assoc)

lemma self_attention_layer_next: "snd (self_attention_layer T c heads p n) = n + 5"
  by (simp add: self_attention_layer_def Let_def split_beta SelfAttention_next mlp_next)

lemma self_attention_layer_parameters:
  "parameters (fst (self_attention_layer T c heads p n)) = [n, n + 1, n + 2, n + 3, n + 4]"
  by (simp add: self_attention_layer_def Let_def split_beta Sequential_def Residual_def
      mlp_parameters SelfAttention_next)
     (simp add: SelfAttention_def LayerNorm_def MultiHeadAttention_def Let_def)

lemma self_attention_layer_shape:
  assumes "torch_shapes T" and "0 < heads" and "heads dvd c" and "tshape T x = [b, t, c]"
  shows "returns_shape T (self_attention_layer_spec T c heads p st n training x ANone ANone) [b, t, c]"
  unfolding self_attention_layer_spec_def
proof (rule returns_shape_then_do [where s = "[b, t, c]"])
  show "returns_shape T (pure (layer_norm T c (st n) x)) [b, t, c]"
    by (rule layer_norm_shape [OF assms(1) assms(4)]) simp_all
next
  fix xn assume xn: "tshape T xn = [b, t, c]"
  show "returns_shape T
          (then_do (multihead_attention T
                \<lparr>embed_dim = c, kdim = c, vdim = c, num_heads = heads, attention_dropout = p\<rparr>
                (st (n + 1)) training xn xn xn ANone ANone) (\<lambda>a.
           then_do (residual_add T p training a x)
             (feed_forward_spec T c p st (n + 2) training))) [b, t, c]"
  proof (rule returns_shape_then_do [where s = "[b, t, c]"])
    show "returns_shape T (multihead_attention T
                \<lparr>embed_dim = c, kdim = c, vdim = c, num_heads = heads, attention_dropout = p\<rparr>
                (st (n + 1)) training xn xn xn ANone ANone) [b, t, c]"
      by (rule multihead_attention_shape [OF assms(1-3) xn xn]) (simp add: good_pad_def)
  next
    fix a assume a: "tshape T a = [b, t, c]"
    show "returns_shape T (then_do (residual_add T p training a x)
             (feed_forward_spec T c p st (n + 2) training)) [b, t, c]"
    proof (rule returns_shape_then_do [where s = "[b, t, c]"])
      show "returns_shape T (residual_add T p training a x) [b, t, c]"
        by (rule residual_add_shape [OF assms(1) a assms(4)])
    next
      fix r assume "tshape T r = [b, t, c]"
      then show "returns_shape T (feed_forward_spec T c p st (n + 2) training r) [b, t, c]"
        by (rule feed_forward_shape [OF assms(1)]) simp_all
    qed
  qed
qed

lemma sequential_forward_Cons:
  "sequential_forward (f # fs) args = then_do (f args) (\<lambda>y. sequential_forward fs [ATensor y])"
  by (cases fs) simp_all

lemma self_attention_layers_next:
  "snd (self_attention_layers T k c heads p n) = n + 5 * k"
  by (induction k arbitrary: n) (simp_all add: split_beta Let_def self_attention_layer_next)

lemma self_attention_layers_parameters:
  "concat (map parameters (fst (self_attention_layers T k c heads p n))) = [n..<n + 5 * k]"
proof (induction k arbitrary: n)
  case 0
  show ?case by simp
next
  case (Suc k)
  have "[n..<n + 5 * Suc k] = [n..<n + 5] @ [n + 5..<n + 5 + 5 * k]"
    using upt_add_eq_append [of n "n + 5" "5 * k"] by (simp add: add.assoc)
  moreover have "[n..<n + 5] = [n, n + 1, n + 2, n + 3, n + 4]"
    by (simp add: upt_rec)
  ultimately show ?case
    using Suc [of "n + 5"]
    by (simp add: split_beta Let_def self_attention_layer_next self_attention_layer_parameters)
qed

lemma self_attention_layers_shape:
  assumes "torch_shapes T" and "0 < heads" and "heads dvd c"
  shows "tshape T x = [b, t, c] \<Longrightarrow>
         returns_shape T
           (sequential_forward (map (\<lambda>m. forward m st training)
              (fst (self_attention_layers T k c heads p n))) [ATensor x]) [b, t, c]"
proof (induction k arbitrary: n x)
  case 0
  then show ?case by (simp add: returns_shape_pure)
next
  case (Suc k)
  show ?case
    apply (simp add: split_beta Let_def sequential_forward_Cons self_attention_layer_forward
        self_attention_layer_next del: sequential_forward.simps)
    apply (rule returns_shape_then_do [where s = "[b, t, c]"])
     apply (rule self_attention_layer_shape [OF assms Suc.prems])
    apply (erule Suc.IH)
    done
qed

section \<open>The encoder\<close>

lemma create_perceiver_layer_next:
  "snd (create_perceiver_layer T c cin hc hs depth p n) = n + perceiver_layer_size depth"
  by (simp add: create_perceiver_layer_def self_attention_block_def split_beta Let_def
      cross_attention_layer_next self_attention_layers_next perceiver_layer_size_def)

lemma create_perceiver_layer_parameters:
  "parameters (fst (create_perceiver_layer T c cin hc hs depth p n)) =
     [n..<n + perceiver_layer_size depth]"
proof -
  have "[n..<n + 6 + 5 * nat depth] = [n..<n + 6] @ [n + 6..<n + 6 + 5 * nat depth]"
    using upt_add_eq_append [of n "n + 6" "5 * nat depth"] by (simp add: add.assoc)
  moreover have "[n..<n + 6] = [n, n + 1, n + 2, n + 3, n + 4, n + 5]"
    by (simp add: upt_rec)
  ultimately show ?thesis
    by (simp add: create_perceiver_layer_def self_attention_block_def split_beta Let_def
        Sequential_def cross_attention_layer_next cross_attention_layer_parameters
        self_attention_layers_parameters perceiver_layer_size_def add.assoc)
qed

lemma create_perceiver_layer_forward:
  "forward (fst (create_perceiver_layer T c cin hc hs depth p n)) st training
       [ATensor z, ATensor x, pad] =
     then_do (cross_attention_layer_spec T c cin hc p st n training z x pad ANone) (\<lambda>y.
       sequential_forward (map (\<lambda>m. forward m st training)
          (fst (self_attention_layers T (nat depth) c hs p (n + 6)))) [ATensor y])"
  by (simp add: create_perceiver_layer_def self_attention_block_def split_beta Let_def
      Sequential_forward_two cross_attention_layer_next cross_attention_layer_forward3)
     (simp add: Sequential_def)

lemma create_perceiver_layer_shape:
  assumes "torch_shapes T" and "0 < hc" and "hc dvd c" and "0 < hs" and "hs dvd c"
      and "tshape T z = [b, N, c]" and "tshape T x = [b, M, cin]" and "good_pad pad b M"
  shows "returns_shape T
           (forward (fst (create_perceiver_layer T c cin hc hs depth p n)) st training
              [ATensor z, ATensor x, pad]) [b, N, c]"
  unfolding create_perceiver_layer_forward
  by (rule returns_shape_then_do [where s = "[b, N, c]"])
     (rule cross_attention_layer_shape [OF assms(1-3) assms(6-8)],
      rule self_attention_layers_shape [OF assms(1) assms(4,5)])

lemma encoder_loop_shape:
  assumes "torch_shapes T" and "0 < hc" and "hc dvd c" and "0 < hs" and "hs dvd c"
      and "tshape T x = [b, M, cin]" and "good_pad pad b M"
      and "k = 0 \<or> lyr_n = Some (fst (create_perceiver_layer T c cin hc hs depth p n))"
  shows "tshape T z = [b, N, c] \<Longrightarrow>
         returns_shape T (encoder_loop lyr_n st training x pad k z) [b, N, c]"
  using assms(8)
proof (induction k arbitrary: z)
  case 0
  then show ?case by (simp add: returns_shape_pure)
next
  case (Suc k)
  from Suc.prems(2) have lyr: "lyr_n = Some (fst (create_perceiver_layer T c cin hc hs depth p n))"
    by simp
  show ?case
    unfolding encoder_loop.simps lyr option.case
  proof (rule returns_shape_then_do [where s = "[b, N, c]"])
    show "returns_shape T
           (forward (fst (create_perceiver_layer T c cin hc hs depth p n)) st training
              [ATensor z, ATensor x, pad]) [b, N, c]"
      by (rule create_perceiver_layer_shape [OF assms(1-5) Suc.prems(1) assms(6,7)])
  next
    fix y assume "tshape T y = [b, N, c]"
    then show "returns_shape T
           (encoder_loop (Some (fst (create_perceiver_layer T c cin hc hs depth p n)))
              st training x pad k y) [b, N, c]"
      using Suc.IH [of y] lyr by simp
  qed
qed

lemma feed_funpow_Inl: "(feed f ^^ k) (Inl e, g) = (Inl e, g)"
  by (induction k) (simp_all add: feed_def)

lemma encoder_loop_funpow:
  "encoder_loop (Some m) st training x pad k z g =
     (feed (\<lambda>z. forward m st training [ATensor z, ATensor x, pad]) ^^ k) (Inr z, g)"
proof (induction k arbitrary: z g)
  case 0
  show ?case by (simp add: pure_def)
next
  case (Suc k)
  let ?F = "\<lambda>z. forward m st training [ATensor z, ATensor x, pad]"
  have "(feed ?F ^^ Suc k) (Inr z, g) = (feed ?F ^^ k) (?F z g)"
    by (simp add: funpow_swap1 feed_def)
  also have "\<dots> = encoder_loop (Some m) st training x pad (Suc k) z g"
  proof (cases "?F z g")
    case (Pair r g')
    then show ?thesis
      by (cases r) (simp_all add: feed_funpow_Inl Suc.IH then_do_def)
  qed
  finally show ?case by simp
qed

lemma PerceiverEncoder_init_fields:
  "PerceiverEncoder_init T ia shape L hc hs depth p n =
     (\<lparr>input_adapter = ia, num_layers = L,
       layer_1 = fst (create_perceiver_layer T (snd shape) (num_input_channels ia) hc hs depth p n),
       layer_n = (if 1 < L
                  then Some (fst (create_perceiver_layer T (snd shape) (num_input_channels ia) hc hs
                                   depth p (n + perceiver_layer_size depth)))
                  else None),
       latent = (if 1 < L then n + 2 * perceiver_layer_size depth else n + perceiver_layer_size depth)\<rparr>,
      Suc (if 1 < L then n + 2 * perceiver_layer_size depth else n + perceiver_layer_size depth))"
  by (simp add: PerceiverEncoder_init_def Let_def split_beta create_perceiver_layer_next)


lemma PerceiverEncoder_forward_unfold:
  assumes "xshape T x = b # rest" and "input_adapter_forward (input_adapter enc) x = Inr x'"
  shows "PerceiverEncoder_forward T enc st training x pad_mask =
           then_do (forward (layer_1 enc) st training
                      [ATensor (repeat_batch T b (param_data T (st (latent enc)))), ATensor x',
                       mask_arg pad_mask])
             (encoder_loop (layer_n enc) st training x' (mask_arg pad_mask) (nat (num_layers enc - 1)))"
  using assms by (simp add: PerceiverEncoder_forward_def Let_def)

text \<open>
  Claim C6. For an encoder constructed with latent shape \<open>(N, C)\<close> (head counts that
  divide \<open>C\<close>, the latent parameter of that shape), a raw input of batch size \<open>b\<close> that
  the input adapter maps to a tensor \<open>(b, M, C_input)\<close>, and no padding mask or one of
  shape \<open>(b, M)\<close>: \<open>forward\<close> returns, and the returned tensor has shape exactly
  \<open>(b, N, C)\<close>, for every \<open>M\<close>, every number of layers and every generator state.
\<close>

theorem PerceiverEncoder_output_shape:
  assumes "torch_shapes T"
      and "0 < hc" and "hc dvd C" and "0 < hs" and "hs dvd C"
      and "enc = fst (PerceiverEncoder_init T ia (N, C) L hc hs depth p n0)"
      and "tshape T (param_data T (st (latent enc))) = [N, C]"
      and "xshape T x = b # rest"
      and "input_adapter_forward ia x = Inr x'"
      and "tshape T x' = [b, M, num_input_channels ia]"
      and "pad_mask = None \<or> (\<exists>m. pad_mask = Some m \<and> nrows m = b \<and> ncols m = M)"
  shows "\<exists>y g'. PerceiverEncoder_forward T enc st training x pad_mask g = (Inr y, g')
           \<and> tshape T y = [b, N, C]"
proof -
  let ?cin = "num_input_channels ia"
  let ?pad = "mask_arg pad_mask :: 'b arg"
  from assms(11) have pad: "good_pad ?pad b M"
    by (auto simp: good_pad_def mask_arg_def)
  have ia: "input_adapter enc = ia"
    and l1: "layer_1 enc = fst (create_perceiver_layer T C ?cin hc hs depth p n0)"
    and ln: "nat (num_layers enc - 1) = 0 \<or>
             layer_n enc = Some (fst (create_perceiver_layer T C ?cin hc hs depth p
                                        (n0 + perceiver_layer_size depth)))"
    by (auto simp: assms(6) PerceiverEncoder_init_fields)
  let ?z = "repeat_batch T b (param_data T (st (latent enc)))"
  have z: "tshape T ?z = [b, N, C]"
    by (simp add: torch_shapes_repeat_batchD [OF assms(1)] assms(7))
  have "returns_shape T (PerceiverEncoder_forward T enc st training x pad_mask) [b, N, C]"
    unfolding PerceiverEncoder_forward_unfold [OF assms(8) assms(9) [folded ia]] l1
  proof (rule returns_shape_then_do [where s = "[b, N, C]"])
    show "returns_shape T
            (forward (fst (create_perceiver_layer T C ?cin hc hs depth p n0)) st training
               [ATensor ?z, ATensor x', ?pad]) [b, N, C]"
      by (rule create_perceiver_layer_shape [OF assms(1-5) z assms(10) pad])
  next
    fix y assume "tshape T y = [b, N, C]"
    then show "returns_shape T
            (encoder_loop (layer_n enc) st training x' ?pad (nat (num_layers enc - 1)) y) [b, N, C]"
      by (rule encoder_loop_shape [OF assms(1-5) assms(10) pad ln])
  qed
  then show ?thesis
    by (simp add: returns_shape_def)
qed

lemma PerceiverEncoder_weight_sharing_parts:
  assumes "PerceiverEncoder_init T ia shape L hc hs depth p n0 = (enc, n1)"
  shows "parameters (layer_1 enc) = [n0..<n0 + perceiver_layer_size depth]"
    and "1 < L \<longrightarrow>
           (\<exists>m. layer_n enc = Some m
              \<and> parameters m = [n0 + perceiver_layer_size depth..<n0 + 2 * perceiver_layer_size depth]
              \<and> set (parameters (layer_1 enc)) \<inter> set (parameters m) = {}
              \<and> latent enc = n0 + 2 * perceiver_layer_size depth
              \<and> n1 = n0 + 2 * perceiver_layer_size depth + 1
              \<and> (\<forall>st training x pad_mask b rest x' g.
                    xshape T x = b # rest \<and> input_adapter_forward ia x = Inr x' \<longrightarrow>
                    PerceiverEncoder_forward T enc st training x pad_mask g =
                      (feed (\<lambda>z. forward m st training [ATensor z, ATensor x', mask_arg pad_mask])
                         ^^ nat (L - 1))
                        (forward (layer_1 enc) st training
                           [ATensor (repeat_batch T b (param_data T (st (latent enc)))), ATensor x',
                            mask_arg pad_mask] g)))"
    and "L \<le> 1 \<longrightarrow> layer_n enc = None \<and> n1 = n0 + perceiver_layer_size depth + 1"
proof -
  from assms have enc: "enc = fst (PerceiverEncoder_init T ia shape L hc hs depth p n0)"
    and n1: "n1 = snd (PerceiverEncoder_init T ia shape L hc hs depth p n0)"
    by simp_all
  show "parameters (layer_1 enc) = [n0..<n0 + perceiver_layer_size depth]"
    by (simp add: enc PerceiverEncoder_init_fields create_perceiver_layer_parameters)
  show "L \<le> 1 \<longrightarrow> layer_n enc = None \<and> n1 = n0 + perceiver_layer_size depth + 1"
    by (simp add: enc n1 PerceiverEncoder_init_fields)
  show "1 < L \<longrightarrow>
           (\<exists>m. layer_n enc = Some m
              \<and> parameters m = [n0 + perceiver_layer_size depth..<n0 + 2 * perceiver_layer_size depth]
              \<and> set (parameters (layer_1 enc)) \<inter> set (parameters m) = {}
              \<and> latent enc = n0 + 2 * perceiver_layer_size depth
              \<and> n1 = n0 + 2 * perceiver_layer_size depth + 1
              \<and> (\<forall>st training x pad_mask b rest x' g.
                    xshape T x = b # rest \<and> input_adapter_forward ia x = Inr x' \<longrightarrow>
                    PerceiverEncoder_forward T enc st training x pad_mask g =
                      (feed (\<lambda>z. forward m st training [ATensor z, ATensor x', mask_arg pad_mask])
                         ^^ nat (L - 1))
                        (forward (layer_1 enc) st training
                           [ATensor (repeat_batch T b (param_data T (st (latent enc)))), ATensor x',
                            mask_arg pad_mask] g)))"
  proof
    assume L: "1 < L"
    let ?m = "fst (create_perceiver_layer T (snd shape) (num_input_channels ia) hc hs depth p
                     (n0 + perceiver_layer_size depth))"
    have ln: "layer_n enc = Some ?m" and ia: "input_adapter enc = ia" and nl: "num_layers enc = L"
      using L by (simp_all add: enc PerceiverEncoder_init_fields)
    have pm: "parameters ?m = [n0 + perceiver_layer_size depth..<n0 + 2 * perceiver_layer_size depth]"
      by (simp add: create_perceiver_layer_parameters mult_2 add.assoc)
    have p1: "parameters (layer_1 enc) = [n0..<n0 + perceiver_layer_size depth]"
      by (simp add: enc PerceiverEncoder_init_fields create_perceiver_layer_parameters)
    have disj: "set (parameters (layer_1 enc)) \<inter> set (parameters ?m) = {}"
      unfolding pm p1 by auto
    have lat: "latent enc = n0 + 2 * perceiver_layer_size depth"
      and nx: "n1 = n0 + 2 * perceiver_layer_size depth + 1"
      using L by (simp_all add: enc n1 PerceiverEncoder_init_fields)
    have fw: "\<forall>st training x pad_mask b rest x' g.
                    xshape T x = b # rest \<and> input_adapter_forward ia x = Inr x' \<longrightarrow>
                    PerceiverEncoder_forward T enc st training x pad_mask g =
                      (feed (\<lambda>z. forward ?m st training [ATensor z, ATensor x', mask_arg pad_mask])
                         ^^ nat (L - 1))
                        (forward (layer_1 enc) st training
                           [ATensor (repeat_batch T b (param_data T (st (latent enc)))), ATensor x',
                            mask_arg pad_mask] g)"
    proof (intro allI impI, elim conjE)
      fix st training x pad_mask b rest x' g
      assume xs: "xshape T x = b # rest" and ad: "input_adapter_forward ia x = Inr x'"
      let ?first = "forward (layer_1 enc) st training
                           [ATensor (repeat_batch T b (param_data T (st (latent enc)))), ATensor x',
                            mask_arg pad_mask] g"
      let ?F = "\<lambda>z. forward ?m st training [ATensor z, ATensor x', mask_arg pad_mask]"
      have "PerceiverEncoder_forward T enc st training x pad_mask g =
              then_do (forward (layer_1 enc) st training
                           [ATensor (repeat_batch T b (param_data T (st (latent enc)))), ATensor x',
                            mask_arg pad_mask])
                (encoder_loop (Some ?m) st training x' (mask_arg pad_mask) (nat (L - 1))) g"
        using PerceiverEncoder_forward_unfold [OF xs ad [folded ia], of st training pad_mask]
        by (simp add: ln nl)
      also have "\<dots> = (feed ?F ^^ nat (L - 1)) ?first"
      proof (cases ?first)
        case (Pair r g')
        then show ?thesis
          by (cases r) (simp_all add: then_do_def feed_funpow_Inl encoder_loop_funpow)
      qed
      finally show "PerceiverEncoder_forward T enc st training x pad_mask g =
                      (feed ?F ^^ nat (L - 1)) ?first" .
    qed
    from ln pm disj lat nx fw show "\<exists>m. layer_n enc = Some m
              \<and> parameters m = [n0 + perceiver_layer_size depth..<n0 + 2 * perceiver_layer_size depth]
              \<and> set (parameters (layer_1 enc)) \<inter> set (parameters m) = {}
              \<and> latent enc = n0 + 2 * perceiver_layer_size depth
              \<and> n1 = n0 + 2 * perceiver_layer_size depth + 1
              \<and> (\<forall>st training x pad_mask b rest x' g.
                    xshape T x = b # rest \<and> input_adapter_forward ia x = Inr x' \<longrightarrow>
                    PerceiverEncoder_forward T enc st training x pad_mask g =
                      (feed (\<lambda>z. forward m st training [ATensor z, ATensor x', mask_arg pad_mask])
                         ^^ nat (L - 1))
                        (forward (layer_1 enc) st training
                           [ATensor (repeat_batch T b (param_data T (st (latent enc)))), ATensor x',
                            mask_arg pad_mask] g))"
      by blast
  qed
qed

section \<open>The executable substrate satisfies what is assumed of torch\<close>

lemma toy_torch_shapes: "torch_shapes (toy_torch xs)"
  unfolding torch_shapes_def
proof (intro conjI)
  show "shapes_repeat_batch (toy_torch xs)"
    by (simp add: shapes_repeat_batch_def toy_torch_def)
  show "shapes_tadd (toy_torch xs)"
    by (simp add: shapes_tadd_def toy_torch_def)
  show "shapes_layer_norm (toy_torch xs)"
    by (simp add: shapes_layer_norm_def toy_torch_def)
  show "shapes_linear (toy_torch xs)"
    by (simp add: shapes_linear_def toy_torch_def)
  show "shapes_gelu (toy_torch xs)"
    by (simp add: shapes_gelu_def toy_torch_def)
  show "shapes_dropout (toy_torch xs)"
    by (simp add: shapes_dropout_def toy_torch_def toy_dropout_def split: prod.splits)
  show "shapes_slice_seq (toy_torch xs)"
    by (simp add: shapes_slice_seq_def toy_torch_def)
  show "shapes_multihead_attention (toy_torch xs)"
    unfolding shapes_multihead_attention_def
  proof (intro allI impI, elim conjE)
    fix cfg :: mha_config and pad :: "toy arg" and w training q k v g b tq tk
    assume "0 < num_heads cfg" "num_heads cfg dvd embed_dim cfg"
      "tshape (toy_torch xs) q = [b, tq, embed_dim cfg]"
      "tshape (toy_torch xs) k = [b, tk, kdim cfg]"
      "tshape (toy_torch xs) v = [b, tk, vdim cfg]" "good_pad pad b tk"
    then have "fst q = [b, tq, embed_dim cfg]" "fst k = [b, tk, kdim cfg]" "fst v = [b, tk, vdim cfg]"
      by (simp_all add: toy_torch_def)
    with \<open>0 < num_heads cfg\<close> \<open>num_heads cfg dvd embed_dim cfg\<close> \<open>good_pad pad b tk\<close>
    have "\<exists>y g'. toy_mha cfg w training q k v pad ANone g = (Inr y, g') \<and> fst y = [b, tq, embed_dim cfg]"
      by (cases "toy_coin training (attention_dropout cfg) g") (simp add: toy_mha_def toy_mha_ok_def)
    then show "\<exists>y g'. multihead_attention (toy_torch xs) cfg w training q k v pad ANone g = (Inr y, g')
           \<and> tshape (toy_torch xs) y = [b, tq, embed_dim cfg]"
      by (simp add: toy_torch_def)
  qed
qed


lemma toy_coin_off: "\<not> training \<or> p = 0 \<Longrightarrow> toy_coin training p g = (True, g)"
  by (auto simp: toy_coin_def)

lemma toy_torch_dropout_off: "torch_dropout_off (toy_torch xs)"
  unfolding torch_dropout_off_def
proof
  show "dropout_off (toy_torch xs)"
    by (simp add: dropout_off_def toy_torch_def toy_dropout_def toy_coin_off)
  show "attention_dropout_off (toy_torch xs)"
    unfolding attention_dropout_off_def
  proof (intro allI impI)
    fix cfg :: mha_config and training and pad am :: "toy arg" and w q k v :: toy
    assume off: "\<not> training \<or> attention_dropout cfg = 0"
    have eq: "multihead_attention (toy_torch xs) = toy_mha"
      by (simp add: toy_torch_def)
    show "\<exists>r. \<forall>g. multihead_attention (toy_torch xs) cfg w training q k v pad am g = (r, g)"
      unfolding eq
    proof (intro exI allI)
      fix g
      show "toy_mha cfg w training q k v pad am g = (fst (toy_mha cfg w training q k v pad am []), g)"
        by (simp add: toy_mha_def toy_coin_off [OF off])
    qed
  qed
qed

text \<open>
  Claim C1. Construction allocates the parameter objects of the primary layer and, if
  \<open>L > 1\<close>, of exactly one further layer with objects of its own, so that the number of
  objects (\<open>n1 - n0\<close>, two compound layers and the latent) is the same for every
  \<open>L > 1\<close>; \<open>forward\<close> is the primary layer applied once to the broadcast latent,
  followed by \<open>L - 1\<close> applications of that one shared layer \<open>m\<close>, each fed the latent
  output of the one before (and the same adapted input and padding mask), so that
  every iteration from 2 to \<open>L\<close> reads the same parameter objects in the store. For
  \<open>L \<le> 1\<close> there is no shared layer.
\<close>

theorem PerceiverEncoder_weight_sharing:
  assumes "PerceiverEncoder_init T ia shape L hc hs depth p n0 = (enc, n1)"
  shows "parameters (layer_1 enc) = [n0..<n0 + perceiver_layer_size depth]
     \<and> (1 < L \<longrightarrow>
           (\<exists>m. layer_n enc = Some m
              \<and> parameters m = [n0 + perceiver_layer_size depth..<n0 + 2 * perceiver_layer_size depth]
              \<and> set (parameters (layer_1 enc)) \<inter> set (parameters m) = {}
              \<and> latent enc = n0 + 2 * perceiver_layer_size depth
              \<and> n1 = n0 + 2 * perceiver_layer_size depth + 1
              \<and> (\<forall>st training x pad_mask b rest x' g.
                    xshape T x = b # rest \<and> input_adapter_forward ia x = Inr x' \<longrightarrow>
                    PerceiverEncoder_forward T enc st training x pad_mask g =
                      (feed (\<lambda>z. forward m st training [ATensor z, ATensor x', mask_arg pad_mask])
                         ^^ nat (L - 1))
                        (forward (layer_1 enc) st training
                           [ATensor (repeat_batch T b (param_data T (st (latent enc)))), ATensor x',
                            mask_arg pad_mask] g))))
     \<and> (L \<le> 1 \<longrightarrow> layer_n enc = None \<and> n1 = n0 + perceiver_layer_size depth + 1)"
  by (intro conjI)
     (rule PerceiverEncoder_weight_sharing_parts(1) [OF assms],
      rule PerceiverEncoder_weight_sharing_parts(2) [OF assms],
      rule PerceiverEncoder_weight_sharing_parts(3) [OF assms])

lemma toy_tensors_shapes: "torch_shapes toy_tensors"
  by (simp add: toy_tensors_def toy_torch_shapes)

lemma toy_text_shapes: "torch_shapes toy_text"
  by (simp add: toy_text_def toy_torch_shapes)

lemma encoder_example_latent: "1 < L \<Longrightarrow> latent (encoder_example L p) = 22"
  by (simp add: encoder_example_def PerceiverEncoder_init_fields perceiver_layer_size_def)

theorem PerceiverEncoder_output_shape_witness:
  "\<exists>y g'. PerceiverEncoder_forward toy_tensors (encoder_example 3 0) (toy_store 22 [2, 4] 0 [])
             True ([5, 7, 3], 1) None [] = (Inr y, g')
        \<and> tshape toy_tensors y = [5, 2, 4]"
proof (rule PerceiverEncoder_output_shape [OF toy_tensors_shapes, where hc = 2 and hs = 2
         and ia = "toy_input_adapter 3" and L = 3 and depth = 1 and p = 0 and ?n0.0 = 0
         and rest = "[7, 3]" and x' = "([5, 7, 3], 1)" and M = 7])
  show "encoder_example 3 0 =
          fst (PerceiverEncoder_init toy_tensors (toy_input_adapter 3) (2, 4) 3 2 2 1 0 0)"
    by (simp add: encoder_example_def)
  show "tshape toy_tensors
          (param_data toy_tensors (toy_store 22 [2, 4] 0 [] (latent (encoder_example 3 0)))) = [2, 4]"
    by (simp add: encoder_example_latent toy_store_def toy_torch_def toy_tensors_def)
qed (simp_all add: toy_torch_def toy_input_adapter_def toy_tensors_def)

theorem PerceiverEncoder_weight_sharing_witness:
  "parameters (layer_1 (encoder_example 3 0)) = [0..<0 + perceiver_layer_size 1]
   \<and> (\<exists>m. layer_n (encoder_example 3 0) = Some m
           \<and> parameters m = [0 + perceiver_layer_size 1..<0 + 2 * perceiver_layer_size 1]
           \<and> set (parameters (layer_1 (encoder_example 3 0))) \<inter> set (parameters m) = {}
           \<and> latent (encoder_example 3 0) = 0 + 2 * perceiver_layer_size 1
           \<and> snd (PerceiverEncoder_init toy_tensors (toy_input_adapter 3) (2, 4) 3 2 2 1 0 0)
                = 0 + 2 * perceiver_layer_size 1 + 1
           \<and> (\<forall>st training x pad_mask b rest x' g.
                 xshape toy_tensors x = b # rest
                   \<and> input_adapter_forward (toy_input_adapter 3) x = Inr x' \<longrightarrow>
                 PerceiverEncoder_forward toy_tensors (encoder_example 3 0) st training x pad_mask g =
                   (feed (\<lambda>z. forward m st training [ATensor z, ATensor x', mask_arg pad_mask])
                      ^^ nat (3 - 1))
                     (forward (layer_1 (encoder_example 3 0)) st training
                        [ATensor (repeat_batch toy_tensors b
                           (param_data toy_tensors (st (latent (encoder_example 3 0))))),
                         ATensor x', mask_arg pad_mask] g)))"
proof -
  have h: "PerceiverEncoder_init toy_tensors (toy_input_adapter 3) (2, 4) 3 2 2 1 0 0 =
             (encoder_example 3 0,
              snd (PerceiverEncoder_init toy_tensors (toy_input_adapter 3) (2, 4) 3 2 2 1 0 0))"
    by (simp add: encoder_example_def)
  note W = PerceiverEncoder_weight_sharing [OF h]
  have l: "(1::int) < 3"
    by simp
  show ?thesis
    by (rule conjI [OF W [THEN conjunct1] W [THEN conjunct2, THEN conjunct1, THEN mp, OF l]])
qed

section \<open>The cross-attention layer\<close>

text \<open>
  Claim C9. A cross-attention layer normalises the query input \<open>q\<close> and the key/value
  input \<open>kv\<close> with two separate normalisations (parameter objects \<open>n\<close> and \<open>n + 1\<close>),
  attends from the normalised query over the normalised key/value stream, adds the
  (dropout-regularised) result to the original input \<open>q\<close>, not to its normalised copy,
  and then applies the feed-forward block LayerNorm, Linear, GELU, Linear with a
  residual connection to its own input \<open>r\<close>. The masks default to \<open>None\<close>. For
  well-shaped inputs the layer returns a tensor of the shape of the query input.
\<close>

theorem cross_attention_layer_structure:
  "forward (fst (cross_attention_layer T cq ckv heads p n)) st training [ATensor q, ATensor kv, pad, am] =
     then_do (pure (layer_norm T cq (st n) q)) (\<lambda>qn.
     then_do (pure (layer_norm T ckv (st (n + 1)) kv)) (\<lambda>kvn.
     then_do (multihead_attention T
                \<lparr>embed_dim = cq, kdim = ckv, vdim = ckv, num_heads = heads, attention_dropout = p\<rparr>
                (st (n + 2)) training qn kvn kvn pad am) (\<lambda>a.
     then_do (residual_add T p training a q) (\<lambda>r.
     then_do (pure (layer_norm T cq (st (n + 3)) r)) (\<lambda>h0.
     then_do (pure (linear T cq cq (st (n + 4)) h0)) (\<lambda>h1.
     then_do (pure (linear T cq cq (st (n + 5)) (gelu T h1))) (\<lambda>h2.
       residual_add T p training h2 r)))))))
   \<and> forward (fst (cross_attention_layer T cq ckv heads p n)) st training [ATensor q, ATensor kv, pad] =
       forward (fst (cross_attention_layer T cq ckv heads p n)) st training [ATensor q, ATensor kv, pad, ANone]
   \<and> forward (fst (cross_attention_layer T cq ckv heads p n)) st training [ATensor q, ATensor kv] =
       forward (fst (cross_attention_layer T cq ckv heads p n)) st training [ATensor q, ATensor kv, ANone, ANone]
   \<and> (torch_shapes T \<and> 0 < heads \<and> heads dvd cq \<and> tshape T q = [b, tq, cq]
        \<and> tshape T kv = [b, tk, ckv] \<and> good_pad pad b tk \<longrightarrow>
       (\<forall>g. \<exists>y g'. forward (fst (cross_attention_layer T cq ckv heads p n)) st training
                       [ATensor q, ATensor kv, pad] g = (Inr y, g')
                  \<and> tshape T y = tshape T q))"
proof (intro conjI impI)
  show "forward (fst (cross_attention_layer T cq ckv heads p n)) st training [ATensor q, ATensor kv, pad, am] =
     then_do (pure (layer_norm T cq (st n) q)) (\<lambda>qn.
     then_do (pure (layer_norm T ckv (st (n + 1)) kv)) (\<lambda>kvn.
     then_do (multihead_attention T
                \<lparr>embed_dim = cq, kdim = ckv, vdim = ckv, num_heads = heads, attention_dropout = p\<rparr>
                (st (n + 2)) training qn kvn kvn pad am) (\<lambda>a.
     then_do (residual_add T p training a q) (\<lambda>r.
     then_do (pure (layer_norm T cq (st (n + 3)) r)) (\<lambda>h0.
     then_do (pure (linear T cq cq (st (n + 4)) h0)) (\<lambda>h1.
     then_do (pure (linear T cq cq (st (n + 5)) (gelu T h1))) (\<lambda>h2.
       residual_add T p training h2 r)))))))"
    by (simp add: cross_attention_layer_forward cross_attention_layer_spec_def
        feed_forward_spec_def [abs_def] ac_simps)
  show "forward (fst (cross_attention_layer T cq ckv heads p n)) st training [ATensor q, ATensor kv, pad] =
       forward (fst (cross_attention_layer T cq ckv heads p n)) st training [ATensor q, ATensor kv, pad, ANone]"
    by (simp only: cross_attention_layer_forward cross_attention_layer_forward3)
  show "forward (fst (cross_attention_layer T cq ckv heads p n)) st training [ATensor q, ATensor kv] =
       forward (fst (cross_attention_layer T cq ckv heads p n)) st training [ATensor q, ATensor kv, ANone, ANone]"
    by (simp only: cross_attention_layer_forward cross_attention_layer_forward2)
next
  assume h: "torch_shapes T \<and> 0 < heads \<and> heads dvd cq \<and> tshape T q = [b, tq, cq]
        \<and> tshape T kv = [b, tk, ckv] \<and> good_pad pad b tk"
  then have "returns_shape T (cross_attention_layer_spec T cq ckv heads p st n training q kv pad ANone)
           [b, tq, cq]"
    by (intro cross_attention_layer_shape [where tk = tk]) simp_all
  with h show "\<forall>g. \<exists>y g'. forward (fst (cross_attention_layer T cq ckv heads p n)) st training
                       [ATensor q, ATensor kv, pad] g = (Inr y, g')
                  \<and> tshape T y = tshape T q"
    by (simp add: cross_attention_layer_forward3 returns_shape_def)
qed

theorem cross_attention_layer_structure_witness:
  "\<forall>g. \<exists>y g'. forward (fst (cross_attention_layer toy_tensors 4 3 2 0 0)) (\<lambda>n. ([], 1)) True
                  [ATensor ([1, 2, 4], 1), ATensor ([1, 5, 3], 1), ANone] g = (Inr y, g')
             \<and> tshape toy_tensors y = tshape toy_tensors ([1, 2, 4], 1)"
proof -
  have h: "torch_shapes toy_tensors \<and> 0 < (2::nat) \<and> (2::nat) dvd 4
        \<and> tshape toy_tensors ([1, 2, 4], 1) = [1, 2, 4]
        \<and> tshape toy_tensors ([1, 5, 3], 1) = [1, 5, 3] \<and> good_pad (ANone :: toy arg) 1 5"
    by (simp add: toy_tensors_shapes good_pad_def) (simp add: toy_tensors_def toy_torch_def)
  show ?thesis
    by (rule cross_attention_layer_structure
          [THEN conjunct2, THEN conjunct2, THEN conjunct2, THEN mp, OF h])
qed

section \<open>The decoder\<close>

lemma PerceiverDecoder_init_fields:
  "output_shape oa \<noteq> [] \<Longrightarrow>
   PerceiverDecoder_init T oa shape heads p n =
     Inr (\<lparr>output_adapter = oa, latent_shape = shape,
           cross_attention = fst (cross_attention_layer T (last (output_shape oa)) (snd shape) heads p n),
           output_query = n + 6\<rparr>,
          n + 7)"
  by (simp add: PerceiverDecoder_init_def Let_def split_beta cross_attention_layer_next)

lemma PerceiverDecoder_init_empty:
  "output_shape oa = [] \<Longrightarrow> PerceiverDecoder_init T oa shape heads p n = Inl IndexError"
  by (simp add: PerceiverDecoder_init_def)

lemma shape_mismatch_message_example:
  "shape_mismatch_message [4, 9] (4, 8) = ''Latent shape (4, 9) different from required shape (4, 8)''"
  by (simp add: shape_mismatch_message_def str_tuple_def str_nat.simps digit_char_def)

text \<open>
  Claim C2. For an input of shape \<open>(b, d1, d2)\<close> to a decoder constructed with latent
  shape \<open>(N, C)\<close> and an output adapter declaring \<open>(K, C_output)\<close>: if \<open>(d1, d2)\<close>
  differs from \<open>(N, C)\<close>, \<open>forward\<close> raises \<open>ValueError\<close> with a message that names the
  observed shape and the required shape; if the shapes agree it does not raise this
  error: the cross-attention layer returns a tensor of shape \<open>(b, K, C_output)\<close>, and
  the result of \<open>forward\<close> is whatever the output adapter makes of that tensor.
\<close>

theorem PerceiverDecoder_shape_check:
  assumes "torch_shapes T"
      and "PerceiverDecoder_init T oa (N, C) heads p n0 = Inr (dec, n1)"
      and "output_shape oa = [K, Cout]" and "0 < heads" and "heads dvd Cout"
      and "tshape T (param_data T (st (output_query dec))) = [K, Cout]"
      and "tshape T x = [b, d1, d2]"
  shows "((d1, d2) \<noteq> (N, C) \<longrightarrow>
            PerceiverDecoder_forward T dec st training x g =
              (Inl (ValueError (''Latent shape '' @ str_tuple [d1, d2]
                      @ '' different from required shape '' @ str_tuple [N, C])), g))
       \<and> ((d1, d2) = (N, C) \<longrightarrow>
            (\<exists>y g'. forward (cross_attention dec) st training
                       [ATensor (repeat_batch T b (param_data T (st (output_query dec)))), ATensor x] g
                       = (Inr y, g')
                  \<and> tshape T y = [b, K, Cout]
                  \<and> PerceiverDecoder_forward T dec st training x g = (output_adapter_forward oa y, g')))"
proof -
  from assms(2,3) have dec: "dec = \<lparr>output_adapter = oa, latent_shape = (N, C),
           cross_attention = fst (cross_attention_layer T Cout C heads p n0),
           output_query = n0 + 6\<rparr>"
    by (simp add: PerceiverDecoder_init_fields)
  let ?out = "repeat_batch T b (param_data T (st (output_query dec)))"
  have out: "tshape T ?out = [b, K, Cout]"
    by (simp add: torch_shapes_repeat_batchD [OF assms(1)] assms(6))
  show ?thesis
  proof (intro conjI impI)
    assume "(d1, d2) \<noteq> (N, C)"
    then show "PerceiverDecoder_forward T dec st training x g =
              (Inl (ValueError (''Latent shape '' @ str_tuple [d1, d2]
                      @ '' different from required shape '' @ str_tuple [N, C])), g)"
      by (auto simp: PerceiverDecoder_forward_def assms(7) dec shape_mismatch_message_def pure_def)
  next
    assume eq: "(d1, d2) = (N, C)"
    then have x: "tshape T x = [b, N, C]"
      using assms(7) by simp
    have "returns_shape T (cross_attention_layer_spec T Cout C heads p st n0 training ?out x ANone ANone)
            [b, K, Cout]"
      by (rule cross_attention_layer_shape [OF assms(1,4,5) out x]) (simp add: good_pad_def)
    then obtain y g' where y: "cross_attention_layer_spec T Cout C heads p st n0 training ?out x ANone ANone g
                                = (Inr y, g')"
      and ys: "tshape T y = [b, K, Cout]"
      unfolding returns_shape_def by blast
    have ca: "forward (cross_attention dec) st training [ATensor ?out, ATensor x] g = (Inr y, g')"
      using y by (simp add: dec cross_attention_layer_forward2)
    have "PerceiverDecoder_forward T dec st training x g = (output_adapter_forward oa y, g')"
      using ca x by (simp add: PerceiverDecoder_forward_def Let_def dec pure_def)
    with ca ys show "\<exists>y g'. forward (cross_attention dec) st training [ATensor ?out, ATensor x] g
                       = (Inr y, g')
                  \<and> tshape T y = [b, K, Cout]
                  \<and> PerceiverDecoder_forward T dec st training x g = (output_adapter_forward oa y, g')"
      by blast
  qed
qed

lemma decoder_example_eq:
  "PerceiverDecoder_init toy_tensors (toy_output_adapter 6 4 9) (2, 4) 2 p n =
     Inr (decoder_example p n, n + 7)"
  by (simp add: decoder_example_def PerceiverDecoder_init_fields toy_output_adapter_def)

lemma decoder_example_output_query: "output_query (decoder_example p n) = n + 6"
  by (simp add: decoder_example_def PerceiverDecoder_init_fields toy_output_adapter_def)

theorem PerceiverDecoder_shape_check_witness:
  "PerceiverDecoder_forward toy_tensors (decoder_example 0 23) (toy_store 22 [2, 4] 29 [6, 4]) True
      ([5, 4, 9], 1) [] =
     (Inl (ValueError (''Latent shape '' @ str_tuple [4, 9]
             @ '' different from required shape '' @ str_tuple [2, 4])), [])"
proof -
  have h6: "tshape toy_tensors (param_data toy_tensors
              (toy_store 22 [2, 4] 29 [6, 4] (output_query (decoder_example 0 23)))) = [6, 4]"
    by (simp add: decoder_example_output_query toy_store_def toy_tensors_def toy_torch_def)
  have h7: "tshape toy_tensors ([5, 4, 9], 1) = [5, 4, 9]"
    by (simp add: toy_tensors_def toy_torch_def)
  have h3: "output_shape (toy_output_adapter 6 4 9) = [6, 4]"
    by (simp add: toy_output_adapter_def)
  have ne: "((4::nat), (9::nat)) \<noteq> (2, 4)"
    by simp
  have h4: "0 < (2::nat)" and h5: "(2::nat) dvd 4"
    by simp_all
  show ?thesis
    by (rule PerceiverDecoder_shape_check [where st = "toy_store 22 [2, 4] 29 [6, 4]"
          and dec = "decoder_example 0 23",
          OF toy_tensors_shapes decoder_example_eq h3 h4 h5 h6 h7,
          THEN conjunct1, THEN mp, OF ne])
qed

section \<open>PerceiverIO: determinism\<close>

lemmas toy_eval =
  toy_tensors_def toy_text_def toy_torch_def toy_dropout_def toy_coin_def toy_mha_def toy_mha_ok_def
  toy_store_def toy_input_adapter_def toy_text_adapter_def toy_output_adapter_def good_pad_def
  residual_add_def feed_forward_spec_def cross_attention_layer_spec_def self_attention_layer_spec_def
  then_do_def pure_def mask_arg_def tokens_shape_def

lemmas forward_eval =
  PerceiverIO_forward_def PerceiverEncoder_forward_def PerceiverDecoder_forward_def
  encoder_example_def decoder_example_def PerceiverEncoder_init_fields PerceiverDecoder_init_fields
  create_perceiver_layer_forward cross_attention_layer_forward2 perceiver_layer_size_def Let_def
  split_beta self_attention_layer_forward

lemma PerceiverIO_example_first_call:
  "PerceiverIO_forward toy_tensors (encoder_example 1 (1 / 2)) (decoder_example (1 / 2) 12)
      (toy_store 11 [2, 4] 18 [6, 4]) True ([5, 7, 3], 1) None
      [3 / 4, 3 / 4, 3 / 4, 3 / 4, 3 / 4, 3 / 4, 3 / 4, 3 / 4, 3 / 4, 1 / 4] =
   (Inr ([5, 6, 9], 136), [1 / 4])"
  by (simp add: forward_eval toy_eval)

lemma PerceiverIO_example_second_call:
  "PerceiverIO_forward toy_tensors (encoder_example 1 (1 / 2)) (decoder_example (1 / 2) 12)
      (toy_store 11 [2, 4] 18 [6, 4]) True ([5, 7, 3], 1) None [1 / 4] =
   (Inr ([5, 6, 9], 64), [])"
  by (simp add: forward_eval toy_eval)

text \<open>
  Claim C8 as stated fails when dropout is active. With dropout rate \<open>1/2\<close> in training
  mode, the same parameter store and the same input, the second of two successive
  calls of \<open>PerceiverIO.forward\<close> returns another tensor than the first: the calls
  read the generator, and the first call has advanced it.
\<close>

theorem PerceiverIO_forward_not_deterministic:
  "fst (PerceiverIO_forward toy_tensors (encoder_example 1 (1 / 2)) (decoder_example (1 / 2) 12)
          (toy_store 11 [2, 4] 18 [6, 4]) True ([5, 7, 3], 1) None
          [3 / 4, 3 / 4, 3 / 4, 3 / 4, 3 / 4, 3 / 4, 3 / 4, 3 / 4, 3 / 4, 1 / 4])
   \<noteq> fst (PerceiverIO_forward toy_tensors (encoder_example 1 (1 / 2)) (decoder_example (1 / 2) 12)
          (toy_store 11 [2, 4] 18 [6, 4]) True ([5, 7, 3], 1) None
          (snd (PerceiverIO_forward toy_tensors (encoder_example 1 (1 / 2)) (decoder_example (1 / 2) 12)
                  (toy_store 11 [2, 4] 18 [6, 4]) True ([5, 7, 3], 1) None
                  [3 / 4, 3 / 4, 3 / 4, 3 / 4, 3 / 4, 3 / 4, 3 / 4, 3 / 4, 3 / 4, 1 / 4])))"
  by (simp add: PerceiverIO_example_first_call PerceiverIO_example_second_call)

lemma generator_free_pure: "generator_free (pure r)"
  by (auto simp: generator_free_def pure_def)

lemma generator_free_then_do:
  assumes "generator_free m" and "\<And>a. generator_free (f a)"
  shows "generator_free (then_do m f)"
proof -
  from assms(1) obtain r where r: "\<And>g. m g = (r, g)"
    unfolding generator_free_def by blast
  show ?thesis
  proof (cases r)
    case (Inl e)
    with r have "\<And>g. then_do m f g = (Inl e, g)"
      by (simp add: then_do_def)
    then show ?thesis
      unfolding generator_free_def by blast
  next
    case (Inr a)
    from assms(2) [of a] obtain r' where "\<And>g. f a g = (r', g)"
      unfolding generator_free_def by blast
    with r Inr have "\<And>g. then_do m f g = (r', g)"
      by (simp add: then_do_def)
    then show ?thesis
      unfolding generator_free_def by blast
  qed
qed

lemma generator_free_residual_add:
  assumes "torch_dropout_off T" and "\<not> training \<or> p = 0"
  shows "generator_free (residual_add T p training x skip)"
proof -
  from assms have "\<And>g. dropout T p training x g = (x, g)"
    unfolding torch_dropout_off_def dropout_off_def by blast
  then have "\<And>g. residual_add T p training x skip g = (tadd T x skip, g)"
    by (simp add: residual_add_def)
  then show ?thesis
    unfolding generator_free_def by blast
qed

lemma generator_free_multihead_attention:
  assumes "torch_dropout_off T" and "\<not> training \<or> attention_dropout cfg = 0"
  shows "generator_free (multihead_attention T cfg w training q k v pad am)"
  using assms unfolding torch_dropout_off_def attention_dropout_off_def generator_free_def by blast

lemma generator_free_feed_forward:
  assumes "torch_dropout_off T" and "\<not> training \<or> p = 0"
  shows "generator_free (feed_forward_spec T c p st n training x)"
  unfolding feed_forward_spec_def
  by (intro generator_free_then_do generator_free_pure generator_free_residual_add assms)

lemma generator_free_cross_attention_layer:
  assumes "torch_dropout_off T" and "\<not> training \<or> p = 0"
  shows "generator_free (cross_attention_layer_spec T cq ckv heads p st n training q kv pad am)"
  unfolding cross_attention_layer_spec_def
  by (intro generator_free_then_do generator_free_pure generator_free_residual_add
      generator_free_feed_forward generator_free_multihead_attention assms)
     (insert assms(2), simp)

lemma generator_free_self_attention_layer:
  assumes "torch_dropout_off T" and "\<not> training \<or> p = 0"
  shows "generator_free (self_attention_layer_spec T c heads p st n training x pad am)"
  unfolding self_attention_layer_spec_def
  by (intro generator_free_then_do generator_free_pure generator_free_residual_add
      generator_free_feed_forward generator_free_multihead_attention assms)
     (insert assms(2), simp)

lemma generator_free_self_attention_layers:
  assumes "torch_dropout_off T" and "\<not> training \<or> p = 0"
  shows "generator_free
           (sequential_forward (map (\<lambda>m. forward m st training)
              (fst (self_attention_layers T k c heads p n))) [ATensor x])"
proof (induction k arbitrary: n x)
  case 0
  show ?case by (simp add: generator_free_pure)
next
  case (Suc k)
  show ?case
    by (simp add: split_beta Let_def sequential_forward_Cons self_attention_layer_forward
        self_attention_layer_next del: sequential_forward.simps)
       (intro generator_free_then_do generator_free_self_attention_layer assms Suc.IH)
qed

lemma generator_free_perceiver_layer:
  assumes "torch_dropout_off T" and "\<not> training \<or> p = 0"
  shows "generator_free
           (forward (fst (create_perceiver_layer T c cin hc hs depth p n)) st training
              [ATensor z, ATensor x, pad])"
  unfolding create_perceiver_layer_forward
  by (intro generator_free_then_do generator_free_cross_attention_layer
      generator_free_self_attention_layers assms)

lemma generator_free_encoder_loop:
  assumes "torch_dropout_off T" and "\<not> training \<or> p = 0"
      and "lyr_n = None \<or> lyr_n = Some (fst (create_perceiver_layer T c cin hc hs depth p n))"
  shows "generator_free (encoder_loop lyr_n st training x pad k z)"
proof (induction k arbitrary: z)
  case 0
  show ?case by (simp add: generator_free_pure)
next
  case (Suc k)
  from assms(3) show ?case
  proof
    assume "lyr_n = None"
    then show ?thesis by (simp add: generator_free_pure)
  next
    assume lyr: "lyr_n = Some (fst (create_perceiver_layer T c cin hc hs depth p n))"
    show ?thesis
      unfolding encoder_loop.simps lyr option.case
      by (intro generator_free_then_do generator_free_perceiver_layer assms(1,2)
          Suc.IH [unfolded lyr])
  qed
qed

lemma generator_free_encoder:
  assumes "torch_dropout_off T" and "\<not> training \<or> p = 0"
      and "enc = fst (PerceiverEncoder_init T ia shape L hc hs depth p n0)"
  shows "generator_free (PerceiverEncoder_forward T enc st training x pad_mask)"
proof (cases "xshape T x")
  case Nil
  then show ?thesis
    by (simp add: PerceiverEncoder_forward_def generator_free_pure)
next
  case (Cons b rest)
  have l1: "layer_1 enc = fst (create_perceiver_layer T (snd shape) (num_input_channels ia) hc hs depth p n0)"
    and ln: "layer_n enc = None \<or>
             layer_n enc = Some (fst (create_perceiver_layer T (snd shape) (num_input_channels ia) hc hs
                                   depth p (n0 + perceiver_layer_size depth)))"
    by (simp_all add: assms(3) PerceiverEncoder_init_fields)
  show ?thesis
    unfolding PerceiverEncoder_forward_def Cons list.case Let_def l1
    by (intro generator_free_then_do generator_free_pure generator_free_perceiver_layer
        generator_free_encoder_loop [OF assms(1,2) ln] assms(1,2))
qed

lemma generator_free_decoder:
  assumes "torch_dropout_off T" and "\<not> training \<or> p = 0"
      and "PerceiverDecoder_init T oa shape heads p n0 = Inr (dec, n1)"
  shows "generator_free (PerceiverDecoder_forward T dec st training x)"
proof -
  from assms(3) have ne: "output_shape oa \<noteq> []"
    by (auto simp: PerceiverDecoder_init_def)
  from assms(3) have ca: "cross_attention dec =
      fst (cross_attention_layer T (last (output_shape oa)) (snd shape) heads p n0)"
    by (auto simp: PerceiverDecoder_init_fields [OF ne])
  show ?thesis
  proof (cases "tshape T x")
    case Nil
    then show ?thesis
      by (simp add: PerceiverDecoder_forward_def generator_free_pure)
  next
    case (Cons b d)
    show ?thesis
    proof (cases "d \<noteq> [fst (latent_shape dec), snd (latent_shape dec)]")
      case True
      then have "PerceiverDecoder_forward T dec st training x =
                   pure (Inl (ValueError (shape_mismatch_message d (latent_shape dec))))"
        by (simp add: PerceiverDecoder_forward_def Cons)
      then show ?thesis
        by (simp only: generator_free_pure)
    next
      case False
      then have "PerceiverDecoder_forward T dec st training x =
                   then_do (cross_attention_layer_spec T (last (output_shape oa)) (snd shape) heads p
                              st n0 training
                              (repeat_batch T b (param_data T (st (output_query dec)))) x ANone ANone)
                     (\<lambda>y. pure (output_adapter_forward (output_adapter dec) y))"
        by (simp add: PerceiverDecoder_forward_def Cons Let_def ca cross_attention_layer_forward2)
      then show ?thesis
        by (simp only:)
           (intro generator_free_then_do generator_free_pure generator_free_cross_attention_layer
              assms(1,2))
    qed
  qed
qed

text \<open>
  Claim C8, amended. In evaluation mode, or with dropout rate 0 in encoder and decoder
  (the default), \<open>PerceiverIO.forward\<close> with a fixed parameter store returns the same
  result \<open>r\<close> from every generator state and leaves the generator unchanged; so any
  two calls on the same input return the same output. (The adapters and the
  primitives of torch are functions of their arguments here; the substrate is only
  assumed to leave the generator alone when dropout is off.)
\<close>

theorem PerceiverIO_forward_deterministic_without_dropout:
  assumes "torch_dropout_off T"
      and "enc = fst (PerceiverEncoder_init T ia shape L hc hs depth p_enc n0)"
      and "PerceiverDecoder_init T oa shape' heads p_dec n1 = Inr (dec, n2)"
      and "\<not> training \<or> (p_enc = 0 \<and> p_dec = 0)"
  shows "\<exists>r. \<forall>g. PerceiverIO_forward T enc dec st training x pad_mask g = (r, g)"
proof -
  from assms(4) have e: "\<not> training \<or> p_enc = 0" and d: "\<not> training \<or> p_dec = 0"
    by auto
  have "generator_free (PerceiverIO_forward T enc dec st training x pad_mask)"
    unfolding PerceiverIO_forward_def
    by (intro generator_free_then_do generator_free_encoder [OF assms(1) e assms(2)]
        generator_free_decoder [OF assms(1) d assms(3)])
  then show ?thesis
    by (simp add: generator_free_def)
qed

lemma toy_tensors_dropout_off: "torch_dropout_off toy_tensors"
  by (simp add: toy_tensors_def toy_torch_dropout_off)

theorem PerceiverIO_forward_deterministic_without_dropout_witness:
  "\<exists>r. \<forall>g. PerceiverIO_forward toy_tensors (encoder_example 1 0) (decoder_example 0 12)
              (toy_store 11 [2, 4] 18 [6, 4]) True ([5, 7, 3], 1) None g = (r, g)"
proof -
  have e: "encoder_example 1 0 =
             fst (PerceiverEncoder_init toy_tensors (toy_input_adapter 3) (2, 4) 1 2 2 1 0 0)"
    by (simp add: encoder_example_def)
  have p: "\<not> True \<or> ((0::real) = 0 \<and> (0::real) = 0)"
    by simp
  show ?thesis
    by (rule PerceiverIO_forward_deterministic_without_dropout
          [OF toy_tensors_dropout_off e decoder_example_eq p])
qed

section \<open>PerceiverMLM\<close>

text \<open>
  Claim C10. With \<open>masking = True\<close> and \<open>pad_mask = None\<close> (both defaults),
  \<open>TextMasking.forward\<close> raises \<open>TypeError\<close> at \<open>is_special |= pad_mask\<close>, and so does
  \<open>PerceiverMLM.forward\<close>, for every encoder and decoder and before the generator is
  read: neither the encoder nor the decoder is reached.
\<close>

theorem PerceiverMLM_masking_requires_pad_mask:
  "TextMasking_forward R tm x None g = (Inl TypeError, g)
   \<and> PerceiverMLM_forward R T mlm st training x None True g = (Inl TypeError, g)"
  by (simp add: PerceiverMLM_forward_def TextMasking_forward_def TextMasking_body_def then_do_def)

lemma PerceiverMLM_forward_unmasked:
  "PerceiverMLM_forward R T mlm st training x pad_mask False =
     then_do (PerceiverEncoder_forward T (encoder mlm) st training x pad_mask) (\<lambda>x_latent.
     then_do (PerceiverDecoder_forward T (decoder mlm) st training x_latent) (\<lambda>out.
     then_do (pure (slice_seq T (ncols x) out)) (\<lambda>x_logits.
       pure (Inr (x_logits, None)))))"
  by (simp add: PerceiverMLM_forward_def Let_def)

lemma PerceiverMLM_forward_returns:
  assumes "PerceiverMLM_forward R T mlm st training x pad_mask mask_flag g = (Inr (x_logits, x_labels), g')"
  shows "\<exists>x_masked g1 x_latent g2 out.
           (if mask_flag
            then (\<exists>l. TextMasking_forward R (masking mlm) x pad_mask g = (Inr (x_masked, l), g1)
                      \<and> x_labels = Some l)
            else x_masked = x \<and> g1 = g \<and> x_labels = None)
         \<and> PerceiverEncoder_forward T (encoder mlm) st training x_masked pad_mask g1 = (Inr x_latent, g2)
         \<and> PerceiverDecoder_forward T (decoder mlm) st training x_latent g2 = (Inr out, g')
         \<and> slice_seq T (ncols x) out = Inr x_logits"
proof -
  obtain r0 g1 where m: "(if mask_flag
         then then_do (TextMasking_forward R (masking mlm) x pad_mask)
                (\<lambda>(x_masked, x_labels). pure (Inr (x_masked, Some x_labels)))
         else pure (Inr (x, None))) g = (r0, g1)"
    by fastforce
  from assms m obtain x_masked lab where r0: "r0 = Inr (x_masked, lab)"
    by (cases r0) (auto simp: PerceiverMLM_forward_def Let_def then_do_def)
  have first: "if mask_flag
            then (\<exists>l. TextMasking_forward R (masking mlm) x pad_mask g = (Inr (x_masked, l), g1)
                      \<and> lab = Some l)
            else x_masked = x \<and> g1 = g \<and> lab = None"
    using m r0
    by (auto simp: then_do_def pure_def split: if_splits prod.splits sum.splits)
  from assms m r0 have rest:
    "then_do (PerceiverEncoder_forward T (encoder mlm) st training x_masked pad_mask) (\<lambda>x_latent.
     then_do (PerceiverDecoder_forward T (decoder mlm) st training x_latent) (\<lambda>out.
     then_do (pure (slice_seq T (ncols x) out)) (\<lambda>x_logits.
       pure (Inr (x_logits, lab))))) g1 = (Inr (x_logits, x_labels), g')"
    by (simp add: PerceiverMLM_forward_def Let_def then_do_def [of "if mask_flag then _ else _"])
  obtain re g2 where e: "PerceiverEncoder_forward T (encoder mlm) st training x_masked pad_mask g1 = (re, g2)"
    by fastforce
  with rest obtain x_latent where re: "re = Inr x_latent"
    by (cases re) (auto simp: then_do_def)
  obtain rd g3 where d: "PerceiverDecoder_forward T (decoder mlm) st training x_latent g2 = (rd, g3)"
    by fastforce
  with rest e re obtain out where rd: "rd = Inr out"
    by (cases rd) (auto simp: then_do_def)
  from rest e re d rd have "slice_seq T (ncols x) out = Inr x_logits \<and> lab = x_labels \<and> g3 = g'"
    by (cases "slice_seq T (ncols x) out") (auto simp: then_do_def pure_def)
  with first e re d rd show ?thesis
    by (intro exI [of _ x_masked] exI [of _ g1] exI [of _ x_latent] exI [of _ g2] exI [of _ out]) auto
qed


text \<open>
  Claim C7. With \<open>masking = False\<close>, \<open>PerceiverMLM.forward\<close> passes the tokens to the
  encoder as they are and returns \<open>None\<close> for the labels. In every case, when it
  returns \<open>(logits, labels)\<close>, the logits are \<open>out[:, :l, :]\<close> for the decoder's output
  \<open>out\<close> on the encoder's latent, \<open>l\<close> being the sequence length of the input tokens;
  with masking the encoder receives the masked tokens and the labels are those of
  \<open>TextMasking\<close>.
\<close>

theorem PerceiverMLM_forward_structure:
  "PerceiverMLM_forward R T mlm st training x pad_mask False =
     then_do (PerceiverEncoder_forward T (encoder mlm) st training x pad_mask) (\<lambda>x_latent.
     then_do (PerceiverDecoder_forward T (decoder mlm) st training x_latent) (\<lambda>out.
     then_do (pure (slice_seq T (ncols x) out)) (\<lambda>x_logits.
       pure (Inr (x_logits, None)))))
   \<and> (PerceiverMLM_forward R T mlm st training x pad_mask mask_flag g = (Inr (x_logits, x_labels), g')
        \<longrightarrow>
       (\<exists>x_masked g1 x_latent g2 out.
           (if mask_flag
            then (\<exists>l. TextMasking_forward R (masking mlm) x pad_mask g = (Inr (x_masked, l), g1)
                      \<and> x_labels = Some l)
            else x_masked = x \<and> g1 = g \<and> x_labels = None)
         \<and> PerceiverEncoder_forward T (encoder mlm) st training x_masked pad_mask g1 = (Inr x_latent, g2)
         \<and> PerceiverDecoder_forward T (decoder mlm) st training x_latent g2 = (Inr out, g')
         \<and> slice_seq T (ncols x) out = Inr x_logits))"
  using PerceiverMLM_forward_unmasked [of R T mlm st training x pad_mask]
    PerceiverMLM_forward_returns [of R T mlm st training x pad_mask mask_flag g x_logits x_labels g']
  by (intro conjI impI) assumption+

lemma mlm_example_forward:
  "PerceiverMLM_forward (replay_random 0) toy_text mlm_example (toy_store 22 [2, 4] 29 [6, 4]) True
     tokens_example None False [] = (Inr (([1, 2, 9], 5560), None), [])"
  by (simp add: PerceiverMLM_forward_unmasked mlm_example_def text_encoder_example_def
      text_decoder_example_def tokens_example_def const_tensor_def
      PerceiverEncoder_forward_def PerceiverDecoder_forward_def
      PerceiverEncoder_init_fields PerceiverDecoder_init_fields
      create_perceiver_layer_forward cross_attention_layer_forward2 perceiver_layer_size_def Let_def
      split_beta self_attention_layer_forward toy_eval)

theorem PerceiverMLM_forward_structure_witness:
  "\<exists>x_masked g1 x_latent g2 out.
           (if False
            then (\<exists>l. TextMasking_forward (replay_random 0) (masking mlm_example) tokens_example None []
                         = (Inr (x_masked, l), g1)
                      \<and> (None :: int tensor2 option) = Some l)
            else x_masked = tokens_example \<and> g1 = [] \<and> (None :: int tensor2 option) = None)
         \<and> PerceiverEncoder_forward toy_text (encoder mlm_example) (toy_store 22 [2, 4] 29 [6, 4]) True
             x_masked None g1 = (Inr x_latent, g2)
         \<and> PerceiverDecoder_forward toy_text (decoder mlm_example) (toy_store 22 [2, 4] 29 [6, 4]) True
             x_latent g2 = (Inr out, [])
         \<and> slice_seq toy_text (ncols tokens_example) out = Inr ([1, 2, 9], 5560)"
  by (rule PerceiverMLM_forward_structure [THEN conjunct2, THEN mp, OF mlm_example_forward])

section \<open>TextMasking: the three outcomes and their probabilities\<close>

text \<open>
  The outcome of a token that is neither padding nor the unknown token, from the
  three draws at its position and the float32 values of the three thresholds.
\<close>

lemma position_outcome_eq:
  assumes "num_special_tokens tm < vocab_size tm" and "tok \<noteq> unk_token_id tm"
  shows "position_outcome tm tok u1 u2 u3 =
           Some (if \<not> u1 < to_float32 (mask_p tm) then NotSelected
                 else if u2 < to_float32 (9 / 10) \<and> u3 < to_float32 (1 / 9) then RandomToken
                 else if u2 < to_float32 (9 / 10) then MaskToken
                 else Unchanged)"
  using assms
  by (simp add: position_outcome_def TextMasking_body_def is_special_def ior_def broadcast_to_def
      tmap_def tand_def lt_mask_def masked_fill_def masked_scatter_def replay_random_def
      const_tensor_def Let_def)















text \<open>
  No event of two draws has probability exactly \<open>0.8\<close> on the grid of
  \<open>torch.rand_like\<close>, whatever the thresholds: 5 does not divide \<open>2 ^ 50\<close>.
\<close>

lemma grid_fraction_never_eight_tenths: "grid_fraction 16777216 P \<noteq> 8 / 10"
proof
  assume a: "grid_fraction 16777216 P = 8 / 10"
  define c where "c = card {(a, b). a < (16777216 :: nat) \<and> b < (16777216 :: nat)
                        \<and> P (grid_point 16777216 a) (grid_point 16777216 b)}"
  from a have "real c / real (16777216 * 16777216) = 8 / 10"
    by (simp add: grid_fraction_def c_def)
  then have "real (5 * c) = real 1125899906842624"
    by (simp add: field_simps)
  then have "5 * c = 1125899906842624"
    by (simp only: of_nat_eq_iff)
  then show False
    by presburger
qed

text \<open>
  The draw \<open>15099494 / 2 ^ 24\<close> lies below \<open>0.9\<close> and is the float32 value of \<open>0.9\<close>: a
  selected position that draws it is not in the replace group and keeps its token.
\<close>

lemma TextMasking_threshold_is_float32:
  "(15099494 / 2 ^ 24 :: real) < 9 / 10
   \<and> position_outcome masking_example 5 (1 / 16) (15099494 / 2 ^ 24) (1 / 32) = Some Unchanged"
proof -
  have h3: "num_special_tokens masking_example < vocab_size masking_example"
    and h7: "5 \<noteq> unk_token_id masking_example"
    and h11: "mask_p masking_example = 15 / 100"
    by (simp_all add: masking_example_def)
  show ?thesis
    unfolding position_outcome_eq [OF h3 h7] h11 to_float32_default to_float32_nine_tenths
      to_float32_one_ninth
    by simp
qed











end
